theory Spec2Isabelle
  imports Complex_Main "HOL-Library.Sublist"
begin

section \<open>The browser client: decoded messages and the item store\<close>

text \<open>
  A JavaScript number is either a finite value or one of the three non-finite values;
  the client only ever compares numbers and tests them with \<open>Number.isFinite\<close>, so the
  finite values are carried by \<open>real\<close>.
\<close>

datatype jsnum = Finite real | NaN | PosInfinity | NegInfinity

fun isFinite :: "jsnum \<Rightarrow> bool" where
  "isFinite (Finite r) = True"
| "isFinite NaN = False"
| "isFinite PosInfinity = False"
| "isFinite NegInfinity = False"

datatype json =
    JNull
  | JBool bool
  | JNum jsnum
  | JStr string
  | JArr "json list"
  | JObj "(string \<times> json) list"

text \<open>
  A \<open>JsonObject\<close> is read by property name; a missing property reads as \<open>undefined\<close>,
  which is \<open>None\<close> here.
\<close>

type_synonym JsonObject = "string \<Rightarrow> json option"

fun asNumber :: "json option \<Rightarrow> jsnum option" where
  "asNumber (Some (JNum n)) = (if isFinite n then Some n else None)"
| "asNumber _ = None"

fun asString :: "json option \<Rightarrow> string option" where
  "asString (Some (JStr s)) = Some s"
| "asString _ = None"

text \<open>
  The \<open>uid\<close> of an item is the string \<open>`${port}-${id}`\<close>. The port is printed in
  digits and the identifier by the injective number printer, so two such strings are
  equal exactly when the two pairs are; the pair stands for the string.
\<close>

type_synonym uid = "nat \<times> jsnum"

record SubtitleMessage =
  msg_id :: jsnum
  subtitle :: string
  time_pos :: jsnum
  sub_start :: jsnum
  sub_end :: jsnum
  thumbnail :: "string option"
  audio :: "string option"
  sourcePort :: nat
  uid :: uid

definition parseSubtitleMessage :: "JsonObject \<Rightarrow> nat \<Rightarrow> SubtitleMessage option" where
  "parseSubtitleMessage d port =
     (let mid = asNumber (d ''id'');
          subtitle = asString (d ''subtitle'');
          sub_start = asNumber (d ''sub_start'');
          sub_end = asNumber (d ''sub_end'');
          time_pos = asNumber (d ''time_pos'')
      in if mid = None \<or> subtitle = None \<or> sub_start = None \<or> sub_end = None then None
         else
           (let normalizedTimePos = (case time_pos of None \<Rightarrow> the sub_start | Some t \<Rightarrow> t)
            in Some \<lparr> msg_id = the mid, subtitle = the subtitle, time_pos = normalizedTimePos,
                      sub_start = the sub_start, sub_end = the sub_end,
                      thumbnail = None, audio = None,
                      sourcePort = port, uid = (port, the mid) \<rparr>))"

fun parseMediaMessage :: "JsonObject \<Rightarrow> (jsnum \<times> string) option" where
  "parseMediaMessage d =
     (case (asNumber (d ''id''), asString (d ''data'')) of
        (Some mid, Some data) \<Rightarrow> Some (mid, data)
      | _ \<Rightarrow> None)"

fun parseAudioRangeMessage :: "JsonObject \<Rightarrow> (jsnum \<times> jsnum \<times> string) option" where
  "parseAudioRangeMessage d =
     (case (asNumber (d ''start_id''), asNumber (d ''end_id''), asString (d ''data'')) of
        (Some startId, Some endId, Some data) \<Rightarrow> Some (startId, endId, data)
      | _ \<Rightarrow> None)"

section \<open>The selection\<close>

text \<open>
  \<open>selectedMessages\<close> is a JavaScript \<open>Set\<close> of uid strings: a list without
  repetitions in insertion order. \<open>findIndex\<close> answers \<open>-1\<close> when nothing matches.
\<close>

fun findIndex :: "('a \<Rightarrow> bool) \<Rightarrow> 'a list \<Rightarrow> int" where
  "findIndex P [] = - 1"
| "findIndex P (x # xs) =
     (if P x then 0 else (let r = findIndex P xs in if r = - 1 then - 1 else r + 1))"

definition set_has :: "'a list \<Rightarrow> 'a \<Rightarrow> bool" where
  "set_has s x = (x \<in> set s)"

definition set_add :: "'a list \<Rightarrow> 'a \<Rightarrow> 'a list" where
  "set_add s x = (if x \<in> set s then s else s @ [x])"

definition set_delete :: "'a list \<Rightarrow> 'a \<Rightarrow> 'a list" where
  "set_delete s x = removeAll x s"

definition selectedIndices :: "SubtitleMessage list \<Rightarrow> uid list \<Rightarrow> int list" where
  "selectedIndices messages selected =
     sort (filter (\<lambda>i. i \<noteq> - 1)
       (map (\<lambda>selId. findIndex (\<lambda>m. uid m = selId) messages) selected))"

text \<open>Reading an array at \<open>0\<close> or at \<open>length - 1\<close> gives \<open>undefined\<close> on the empty array.\<close>

definition at_first :: "'a list \<Rightarrow> 'a option" where
  "at_first xs = (case xs of [] \<Rightarrow> None | x # _ \<Rightarrow> Some x)"

definition at_last :: "'a list \<Rightarrow> 'a option" where
  "at_last xs = (if xs = [] then None else Some (last xs))"

definition toggleSelection ::
  "SubtitleMessage list \<Rightarrow> uid list \<Rightarrow> SubtitleMessage \<Rightarrow> int \<Rightarrow> uid list" where
  "toggleSelection messages selected msg index =
     (let sid = uid msg in
      if set_has selected sid then
        (let si = selectedIndices messages selected in
         if Some index = at_first si \<or> Some index = at_last si
         then set_delete selected sid else selected)
      else if length selected = 0 then set_add selected sid
      else
        (let si = selectedIndices messages selected;
             minIdx = (case at_first si of None \<Rightarrow> index | Some v \<Rightarrow> v);
             maxIdx = (case at_last si of None \<Rightarrow> index | Some v \<Rightarrow> v)
         in if index = minIdx - 1 \<or> index = maxIdx + 1
            then set_add selected sid else selected))"

definition clearSelection :: "uid list" where
  "clearSelection = []"

definition getSelectedMessages :: "SubtitleMessage list \<Rightarrow> uid list \<Rightarrow> SubtitleMessage list" where
  "getSelectedMessages messages selected = filter (\<lambda>m. set_has selected (uid m)) messages"

definition getSelectionRange ::
  "SubtitleMessage list \<Rightarrow> uid list \<Rightarrow> (SubtitleMessage \<times> SubtitleMessage) option" where
  "getSelectionRange messages selected =
     (let sel = getSelectedMessages messages selected in
      if length sel = 0 then None
      else
        (let srt = sort_key (\<lambda>a. findIndex (\<lambda>m. uid m = uid a) messages) sel
         in case (at_first srt, at_last srt) of
              (Some first_m, Some last_m) \<Rightarrow> Some (first_m, last_m)
            | _ \<Rightarrow> None))"

definition selectionRange ::
  "SubtitleMessage list \<Rightarrow> uid list \<Rightarrow> (SubtitleMessage \<times> SubtitleMessage) option" where
  "selectionRange messages selected =
     (if length selected < 2 then None else getSelectionRange messages selected)"

text \<open>
  The positions the selection occupies in the store: the index of the first item that
  carries each selected uid, for the uids the store still holds.
\<close>

definition selected_positions :: "SubtitleMessage list \<Rightarrow> uid list \<Rightarrow> int set" where
  "selected_positions messages selected =
     {i. i \<noteq> - 1 \<and> (\<exists>s \<in> set selected. i = findIndex (\<lambda>m. uid m = s) messages)}"

section \<open>The client state: store, pending markers, timers\<close>

text \<open>
  The items of \<open>messages\<close> are objects: a request keeps the object it was called with
  and reads its \<open>thumbnail\<close> and \<open>audio\<close> fields later, whether or not the store
  still holds it. So the state has a heap of item objects, \<open>objs\<close>, and the store is
  the list of their addresses, oldest first.

  A pending marker \<open>loadingMedia[key]\<close> is either absent or \<open>true\<close>; the record of
  markers is the list of keys that are set. The key strings are
  \<open>`${thumb|audio}-${uid}${endId ? `-${endId}` : ''}`\<close> and
  \<open>`audio_range-${port}-${startId}-${endId}`\<close>; the constructors below stand for them.

  Each call of a request function creates one promise; the calls are numbered, and
  \<open>resolved\<close> records the first value each promise was resolved with and when
  (later calls of \<open>resolve\<close> on the same promise have no effect). A call arms at most
  one interval and one timeout, named \<open>Poll c\<close> and \<open>Deadline c\<close> after the call.
  Times are in milliseconds. Toasts, scrolling and audio playback are left out.
\<close>

datatype kind = Thumbnail | Audio

datatype key = MediaKey kind uid "jsnum option" | RangeKey nat jsnum jsnum

datatype req = MediaReq kind nat | RangeReq jsnum jsnum nat

datatype role = Own | Joined

datatype tid = Poll nat | Deadline nat

datatype payload = MediaPayload kind jsnum "jsnum option" | RangePayload jsnum jsnum

record timer =
  t_id :: tid
  due :: nat
  t_role :: role
  t_req :: req
  t_key :: key

record client =
  objs :: "nat \<Rightarrow> SubtitleMessage"
  next_obj :: nat
  messages :: "nat list"
  selectedMessages :: "uid list"
  loadingMedia :: "key list"
  pendingAudioRange :: "(jsnum \<times> jsnum \<times> string \<times> nat) option"
  connectedPorts :: "nat list"
  now :: nat
  timers :: "timer list"
  next_caller :: nat
  sent :: "(nat \<times> nat \<times> payload) list"
  resolved :: "(nat \<times> string option \<times> nat) list"

definition store_items :: "client \<Rightarrow> SubtitleMessage list" where
  "store_items st = map (objs st) (messages st)"

text \<open>JavaScript truthiness of an optional string and of an optional number.\<close>

definition truthy :: "string option \<Rightarrow> bool" where
  "truthy v = (case v of None \<Rightarrow> False | Some s \<Rightarrow> s \<noteq> [])"

definition num_truthy :: "jsnum option \<Rightarrow> bool" where
  "num_truthy e = (case e of None \<Rightarrow> False | Some n \<Rightarrow> n \<noteq> Finite 0 \<and> n \<noteq> NaN)"

definition end_of :: "jsnum option \<Rightarrow> jsnum option" where
  "end_of e = (if num_truthy e then e else None)"

text \<open>
  Modelled from the spec: the connection manager (\<open>useWebSocket\<close>) and \<open>isJsonObject\<close>
  are not among the source files. The aggregate status is \<open>connected\<close> when at least one
  port is connected; \<open>send\<close> transmits only when that port is connected and answers
  \<open>false\<close> without raising otherwise; an inbound envelope that is not an object is
  dropped.
\<close>

definition ws_status_connected :: "client \<Rightarrow> bool" where
  "ws_status_connected st = (connectedPorts st \<noteq> [])"

definition ws_send :: "client \<Rightarrow> payload \<Rightarrow> nat \<Rightarrow> client \<times> bool" where
  "ws_send st pl port =
     (if port \<in> set (connectedPorts st)
      then (st\<lparr>sent := sent st @ [(now st, port, pl)]\<rparr>, True)
      else (st, False))"

fun isJsonObject :: "json \<Rightarrow> (string \<times> json) list option" where
  "isJsonObject (JObj kvs) = Some kvs"
| "isJsonObject _ = None"

definition sendToPort :: "client \<Rightarrow> payload \<Rightarrow> nat \<Rightarrow> client \<times> bool" where
  "sendToPort st pl port = (if port = 0 then (st, False) else ws_send st pl port)"

definition resolve :: "client \<Rightarrow> nat \<Rightarrow> string option \<Rightarrow> client" where
  "resolve st c v =
     (if c \<in> set (map fst (resolved st)) then st
      else st\<lparr>resolved := resolved st @ [(c, v, now st)]\<rparr>)"

definition clearInterval :: "client \<Rightarrow> nat \<Rightarrow> client" where
  "clearInterval st c = st\<lparr>timers := filter (\<lambda>t. t_id t \<noteq> Poll c) (timers st)\<rparr>"

definition arm :: "client \<Rightarrow> nat \<Rightarrow> role \<Rightarrow> req \<Rightarrow> key \<Rightarrow> nat \<Rightarrow> client" where
  "arm st c r rq k ms =
     st\<lparr>timers := timers st @
        [\<lparr>t_id = Poll c, due = now st + 100, t_role = r, t_req = rq, t_key = k\<rparr>,
         \<lparr>t_id = Deadline c, due = now st + ms, t_role = r, t_req = rq, t_key = k\<rparr>]\<rparr>"

definition requestMediaFromServer :: "client \<Rightarrow> nat \<Rightarrow> kind \<Rightarrow> jsnum option \<Rightarrow> client" where
  "requestMediaFromServer st0 ref type endId =
     (let c = next_caller st0; st = st0\<lparr>next_caller := c + 1\<rparr> in
      if \<not> ws_status_connected st then resolve st c None
      else
        (let msg = objs st ref; k = MediaKey type (uid msg) (end_of endId) in
         if k \<in> set (loadingMedia st) then arm st c Joined (MediaReq type ref) k 10000
         else
           (let st1 = st\<lparr>loadingMedia := set_add (loadingMedia st) k\<rparr>;
                (st2, ok) = sendToPort st1 (MediaPayload type (msg_id msg) (end_of endId))
                              (sourcePort msg)
            in if \<not> ok
               then resolve (st2\<lparr>loadingMedia := set_delete (loadingMedia st2) k\<rparr>) c None
               else arm st2 c Own (MediaReq type ref) k 10000)))"

definition requestAudioRange :: "client \<Rightarrow> jsnum \<Rightarrow> jsnum \<Rightarrow> nat \<Rightarrow> client" where
  "requestAudioRange st0 startId endId port =
     (let c = next_caller st0; st = st0\<lparr>next_caller := c + 1\<rparr> in
      if \<not> ws_status_connected st then resolve st c None
      else
        (let k = RangeKey port startId endId in
         if k \<in> set (loadingMedia st) then arm st c Joined (RangeReq startId endId port) k 15000
         else
           (let st1 = st\<lparr>loadingMedia := set_add (loadingMedia st) k\<rparr>;
                (st2, ok) = sendToPort st1 (RangePayload startId endId) port
            in if \<not> ok
               then resolve (st2\<lparr>loadingMedia := set_delete (loadingMedia st2) k\<rparr>) c None
               else arm st2 c Own (RangeReq startId endId port) k 15000)))"

fun media_value :: "client \<Rightarrow> req \<Rightarrow> string option" where
  "media_value st (MediaReq Thumbnail ref) = thumbnail (objs st ref)"
| "media_value st (MediaReq Audio ref) = audio (objs st ref)"
| "media_value st (RangeReq s e p) = None"

text \<open>The body of the interval callback (every 100 ms) of call \<open>c\<close>.\<close>

fun poll_cb :: "client \<Rightarrow> nat \<Rightarrow> role \<Rightarrow> req \<Rightarrow> key \<Rightarrow> client" where
  "poll_cb st c r (MediaReq type ref) k =
     (if truthy (media_value st (MediaReq type ref))
      then resolve (clearInterval st c) c (media_value st (MediaReq type ref))
      else if r = Joined \<and> k \<notin> set (loadingMedia st)
      then resolve (clearInterval st c) c None
      else st)"
| "poll_cb st c r (RangeReq startId endId port) k =
     (if pendingAudioRange st \<noteq> None \<and>
         fst (the (pendingAudioRange st)) = startId \<and>
         fst (snd (the (pendingAudioRange st))) = endId \<and>
         snd (snd (snd (the (pendingAudioRange st)))) = port
      then resolve ((clearInterval st c)\<lparr>pendingAudioRange := None\<rparr>) c
             (Some (fst (snd (snd (the (pendingAudioRange st))))))
      else if r = Joined \<and> k \<notin> set (loadingMedia st)
      then resolve (clearInterval st c) c None
      else st)"

text \<open>The body of the timeout callback (after 10 s, or 15 s for a range) of call \<open>c\<close>.\<close>

definition deadline_cb :: "client \<Rightarrow> nat \<Rightarrow> role \<Rightarrow> req \<Rightarrow> key \<Rightarrow> client" where
  "deadline_cb st c r rq k =
     (let st1 = clearInterval st c;
          st2 = (if r = Own then st1\<lparr>loadingMedia := set_delete (loadingMedia st1) k\<rparr> else st1)
      in resolve st2 c (media_value st2 rq))"

text \<open>
  The host runs a timer: the clock is at least the timer's due time; an interval is due
  again 100 ms later unless its callback cleared it; a timeout is gone once it ran.
  Firing a timer that is not armed does nothing.
\<close>

definition fire :: "client \<Rightarrow> tid \<Rightarrow> client" where
  "fire st i =
     (case find (\<lambda>t. t_id t = i) (timers st) of
        None \<Rightarrow> st
      | Some t \<Rightarrow>
          (let st0 = st\<lparr>now := max (now st) (due t)\<rparr> in
           case i of
             Poll c \<Rightarrow>
               (let st1 = poll_cb st0 c (t_role t) (t_req t) (t_key t) in
                st1\<lparr>timers := map (\<lambda>u. if t_id u = Poll c then u\<lparr>due := due u + 100\<rparr> else u)
                                  (timers st1)\<rparr>)
           | Deadline c \<Rightarrow>
               deadline_cb (st0\<lparr>timers := filter (\<lambda>u. t_id u \<noteq> Deadline c) (timers st0)\<rparr>)
                 c (t_role t) (t_req t) (t_key t)))"

definition onMessage :: "client \<Rightarrow> json \<Rightarrow> nat \<Rightarrow> client" where
  "onMessage st data port =
     (case isJsonObject data of
        None \<Rightarrow> st
      | Some kvs \<Rightarrow>
          (let d = map_of kvs in
           case d ''type'' of
             Some (JStr type) \<Rightarrow>
               if type = ''subtitle'' then
                 (case parseSubtitleMessage d port of
                    None \<Rightarrow> st
                  | Some msg \<Rightarrow>
                      (let pushed = messages st @ [next_obj st] in
                       st\<lparr>objs := (objs st)(next_obj st := msg),
                          next_obj := next_obj st + 1,
                          messages := (if length pushed > 200 then tl pushed else pushed)\<rparr>))
               else if type = ''thumbnail'' \<or> type = ''audio'' then
                 (case parseMediaMessage d of
                    None \<Rightarrow> st
                  | Some (mid, mdata) \<Rightarrow>
                      (let st1 =
                         (case find (\<lambda>a. msg_id (objs st a) = mid \<and> sourcePort (objs st a) = port)
                                 (messages st) of
                            None \<Rightarrow> st
                          | Some a \<Rightarrow>
                              (if type = ''thumbnail''
                               then st\<lparr>objs := (objs st)(a := (objs st a)\<lparr>thumbnail := Some mdata\<rparr>)\<rparr>
                               else st\<lparr>objs := (objs st)(a := (objs st a)\<lparr>audio := Some mdata\<rparr>)\<rparr>));
                           k = MediaKey (if type = ''thumbnail'' then Thumbnail else Audio)
                                 (port, mid) None
                       in st1\<lparr>loadingMedia := set_delete (loadingMedia st1) k\<rparr>))
               else if type = ''audio_range'' then
                 (case parseAudioRangeMessage d of
                    None \<Rightarrow> st
                  | Some (startId, endId, rdata) \<Rightarrow>
                      st\<lparr>pendingAudioRange := Some (startId, endId, rdata, port),
                         loadingMedia := set_delete (loadingMedia st) (RangeKey port startId endId)\<rparr>)
               else st
           | _ \<Rightarrow> st))"

text \<open>What happens to the client, one event at a time.\<close>

datatype event =
    Message json nat
  | RequestMedia nat kind "jsnum option"
  | RequestRange jsnum jsnum nat
  | Fire tid
  | Advance nat
  | Connection "nat list"

fun step :: "client \<Rightarrow> event \<Rightarrow> client" where
  "step st (Message data port) = onMessage st data port"
| "step st (RequestMedia ref type endId) = requestMediaFromServer st ref type endId"
| "step st (RequestRange startId endId port) = requestAudioRange st startId endId port"
| "step st (Fire i) = fire st i"
| "step st (Advance t) = st\<lparr>now := max (now st) t\<rparr>"
| "step st (Connection ps) = st\<lparr>connectedPorts := ps\<rparr>"

definition run :: "client \<Rightarrow> event list \<Rightarrow> client" where
  "run st es = foldl step st es"


definition deadline_at :: "client \<Rightarrow> nat \<Rightarrow> nat \<Rightarrow> bool" where
  "deadline_at st c t = list_ex (\<lambda>u. t_id u = Deadline c \<and> due u = t) (timers st)"


section \<open>Operations on the selected range\<close>

text \<open>
  \<open>requestSelectionAudioRange\<close> and \<open>sendSelectionToAnki\<close> are asynchronous functions;
  each is given here by the calls it makes and the toasts it shows, in order. The values
  the awaited promises deliver come with the environment: what the note service answers
  (\<open>Inl\<close> when it throws), the clock, and what the media requests resolve with. The
  texts written to the note fields and the file names are left out, and so is the second
  test of \<open>ankiConfigured\<close> inside the \<open>try\<close> block, which the first test
  makes unreachable. The error
  \<open>MixedConnections\<close> stands for the message
  \<open>Selected subtitles must come from the same connection for audio.\<close>
\<close>

datatype export_error =
    NoTargetCard
  | CardTooOld int
  | MixedConnections
  | Thrown string

datatype action =
    ToastError export_error
  | ToastSuccess nat
  | PlayAudio string
  | CallRequestAudioRange jsnum jsnum nat
  | CallRequestMedia SubtitleMessage kind "jsnum option"
  | CallGetLastNote
  | CallStoreMediaFile string
  | CallUpdateNoteFields

definition requestSelectionAudioRange ::
  "SubtitleMessage list \<Rightarrow> uid list \<Rightarrow> string option \<Rightarrow> action list" where
  "requestSelectionAudioRange msgs sel awaited =
     (case selectionRange msgs sel of
        None \<Rightarrow> []
      | Some (first_m, last_m) \<Rightarrow>
          (let selectedMsgs = getSelectedMessages msgs sel;
               selectionPort = sourcePort first_m;
               allSamePort = list_all (\<lambda>msg. sourcePort msg = selectionPort) selectedMsgs
           in if \<not> allSamePort then [ToastError MixedConnections]
              else CallRequestAudioRange (msg_id first_m) (msg_id last_m) selectionPort #
                   (if truthy awaited then [PlayAudio (the awaited)] else [])))"

record export_env =
  ankiConfigured :: bool
  sentenceField :: string
  audioField :: string
  imageField :: string
  maxCardAgeMinutes :: "int option"
  getLastNote :: "string + int option"
  date_now :: int
  awaited_audio :: "string option"
  awaited_image :: "string option"
  storeMediaFile :: "string option"
  updateNoteFields :: "string option"

definition export_audio ::
  "export_env \<Rightarrow> SubtitleMessage list \<Rightarrow> SubtitleMessage \<Rightarrow> SubtitleMessage
     \<Rightarrow> action list \<times> (export_error + bool)" where
  "export_audio env selectedMsgs first_m last_m =
     (if audioField env = [] then ([], Inr False)
      else if length selectedMsgs > 1 \<and>
              \<not> list_all (\<lambda>msg. sourcePort msg = sourcePort first_m) selectedMsgs
      then ([], Inl MixedConnections)
      else
        (let (calls, audioData) =
               (if length selectedMsgs > 1
                then ([CallRequestAudioRange (msg_id first_m) (msg_id last_m) (sourcePort first_m)],
                      awaited_audio env)
                else if truthy (audio first_m) then ([], audio first_m)
                else ([CallRequestMedia first_m Audio None], awaited_audio env))
         in if truthy audioData
            then (calls @ [CallStoreMediaFile (the audioData)],
                  (case storeMediaFile env of Some e \<Rightarrow> Inl (Thrown e) | None \<Rightarrow> Inr True))
            else (calls, Inr False)))"

definition export_image ::
  "export_env \<Rightarrow> SubtitleMessage list \<Rightarrow> SubtitleMessage \<Rightarrow> SubtitleMessage
     \<Rightarrow> action list \<times> (export_error + bool)" where
  "export_image env selectedMsgs first_m last_m =
     (if imageField env = [] then ([], Inr False)
      else
        (let held = (if length selectedMsgs = 1 then thumbnail first_m else None);
             (calls, imageData) =
               (if truthy held then ([], held)
                else ([CallRequestMedia first_m Thumbnail
                         (if length selectedMsgs > 1 then Some (msg_id last_m) else None)],
                      awaited_image env))
         in if truthy imageData
            then (calls @ [CallStoreMediaFile (the imageData)],
                  (case storeMediaFile env of Some e \<Rightarrow> Inl (Thrown e) | None \<Rightarrow> Inr True))
            else (calls, Inr False)))"

definition sendSelectionToAnki ::
  "SubtitleMessage list \<Rightarrow> uid list \<Rightarrow> export_env \<Rightarrow> action list" where
  "sendSelectionToAnki msgs sel env =
     (let selectedMsgs = getSelectedMessages msgs sel in
      if \<not> ankiConfigured env \<or> length selectedMsgs = 0 then []
      else
        (case getSelectionRange msgs sel of
           None \<Rightarrow> []
         | Some (first_m, last_m) \<Rightarrow>
             CallGetLastNote #
             (case getLastNote env of
                Inl e \<Rightarrow> [ToastError (Thrown e)]
              | Inr None \<Rightarrow> [ToastError NoTargetCard]
              | Inr (Some noteId) \<Rightarrow>
                  (let maxAgeMinutes = (case maxCardAgeMinutes env of None \<Rightarrow> 5 | Some n \<Rightarrow> n) in
                   if maxAgeMinutes > 0 \<and> date_now env - noteId > maxAgeMinutes * 60000
                   then [ToastError (CardTooOld maxAgeMinutes)]
                   else
                     (let (audio_calls, audio_res) = export_audio env selectedMsgs first_m last_m in
                      case audio_res of
                        Inl e \<Rightarrow> audio_calls @ [ToastError e]
                      | Inr audio_set \<Rightarrow>
                          (let (image_calls, image_res) =
                                 export_image env selectedMsgs first_m last_m in
                           case image_res of
                             Inl e \<Rightarrow> audio_calls @ image_calls @ [ToastError e]
                           | Inr image_set \<Rightarrow>
                               audio_calls @ image_calls @
                               (if sentenceField env \<noteq> [] \<or> audio_set \<or> image_set
                                then (case updateNoteFields env of
                                        Some e \<Rightarrow> [CallUpdateNoteFields, ToastError (Thrown e)]
                                      | None \<Rightarrow>
                                          [CallUpdateNoteFields,
                                           ToastSuccess (length selectedMsgs)])
                                else [])))))))"

definition mixed_ports :: "SubtitleMessage list \<Rightarrow> bool" where
  "mixed_ports ms = (\<exists>a \<in> set ms. \<exists>b \<in> set ms. sourcePort a \<noteq> sourcePort b)"

section \<open>The supervisor script of the player\<close>

text \<open>
  The script keeps four variables: \<open>server_process\<close>, \<open>server_running\<close>,
  \<open>current_port\<close> and \<open>startup_timer\<close>. The host owns the rest: the asynchronous
  commands whose callback has not run yet (each callback captured its \<open>port_index\<close>),
  and the timeouts that are armed (each captured its \<open>port\<close>). The state lists both, so
  that \<open>kill\<close> really disarms a timeout and a timeout that nobody killed can still fire.
  \<open>spawned\<close> lists the ports the helper was started with, \<open>aborted\<close> the handles passed
  to \<open>abort_async_command\<close>, \<open>osd\<close> the notices shown to the user, all in order. Log
  lines (\<open>mp.msg\<close>) are left out.
\<close>

datatype notice =
    NoticeFailedAnyPort
  | NoticeIpcInUse
  | NoticeCantConnect
  | NoticeStoppedError
  | NoticeStopped
  | NoticeStarted int
  | NoticeFailedToStart
  | NoticeAlreadyRunning "int option"
  | NoticeStarting
  | NoticeNotRunning
  | NoticeStopping

record proc_result =
  r_stdout :: "string option"
  r_stderr :: "string option"

record supervisor =
  server_process :: "nat option"
  server_running :: bool
  current_port :: "int option"
  startup_timer :: "nat option"
  callbacks :: "(nat \<times> nat) list"
  armed :: "(nat \<times> int) list"
  next_handle :: nat
  next_timeout :: nat
  spawned :: "int list"
  aborted :: "nat list"
  osd :: "notice list"

text \<open>
  \<open>s:find(pat)\<close> for a pattern without magic characters: does \<open>pat\<close> occur in \<open>s\<close>?
  All patterns of the script are letters, digits, blanks and underscores.
\<close>

fun str_find :: "string \<Rightarrow> string \<Rightarrow> bool" where
  "str_find [] pat = (pat = [])"
| "str_find (c # cs) pat = (prefix pat (c # cs) \<or> str_find cs pat)"

definition stderr_of :: "proc_result option \<Rightarrow> string" where
  "stderr_of result =
     (case result of None \<Rightarrow> [] | Some r \<Rightarrow> (case r_stderr r of None \<Rightarrow> [] | Some s \<Rightarrow> s))"

definition is_port_error :: "string \<Rightarrow> bool" where
  "is_port_error stderr_text =
     (str_find stderr_text ''Address already in use'' \<or>
      str_find stderr_text ''os error 98'' \<or>
      str_find stderr_text ''os error 10048'')"

definition is_pid_mismatch :: "string \<Rightarrow> bool" where
  "is_pid_mismatch stderr_text = str_find stderr_text ''MPV_IPC_PID_MISMATCH''"

definition is_connect_failure :: "string \<Rightarrow> bool" where
  "is_connect_failure stderr_text =
     (str_find stderr_text ''Failed to connect to mpv socket'' \<or>
      str_find stderr_text ''Failed to connect to mpv pipe'')"

definition kill_startup_timer :: "supervisor \<Rightarrow> supervisor" where
  "kill_startup_timer st =
     (case startup_timer st of
        None \<Rightarrow> st
      | Some t \<Rightarrow> st\<lparr>armed := filter (\<lambda>e. fst e \<noteq> t) (armed st), startup_timer := None\<rparr>)"

text \<open>
  \<open>ports\<close> is \<open>opts.ports\<close>, indexed from 1 as in the script. \<open>accepts h\<close> tells whether
  the host hands out a handle for the command numbered \<open>h\<close>; when it does not,
  \<open>command_native_async\<close> answers \<open>nil\<close> and the host still calls the callback later.
\<close>

definition try_start_on_port ::
  "int list \<Rightarrow> (nat \<Rightarrow> bool) \<Rightarrow> nat \<Rightarrow> supervisor \<Rightarrow> supervisor" where
  "try_start_on_port ports accepts port_index st =
     (if port_index > length ports then st\<lparr>osd := osd st @ [NoticeFailedAnyPort]\<rparr>
      else
        (let port = ports ! (port_index - 1);
             h = next_handle st;
             st1 = st\<lparr>current_port := Some port,
                      spawned := spawned st @ [port],
                      callbacks := callbacks st @ [(h, port_index)],
                      next_handle := h + 1,
                      server_process := (if accepts h then Some h else None)\<rparr>
         in if server_process st1 \<noteq> None
            then st1\<lparr>startup_timer := Some (next_timeout st1),
                     armed := armed st1 @ [(next_timeout st1, port)],
                     next_timeout := next_timeout st1 + 1\<rparr>
            else st1\<lparr>osd := osd st1 @ [NoticeFailedToStart]\<rparr>))"

text \<open>The callback of the command with handle \<open>h\<close>, run by the host when the helper is gone.\<close>

definition exit_callback ::
  "int list \<Rightarrow> (nat \<Rightarrow> bool) \<Rightarrow> nat \<Rightarrow> bool \<Rightarrow> proc_result option \<Rightarrow> supervisor \<Rightarrow> supervisor"
  where
  "exit_callback ports accepts h success result st =
     (case map_of (callbacks st) h of
        None \<Rightarrow> st
      | Some port_index \<Rightarrow>
          (let was_confirmed_running = server_running st;
               st1 = st\<lparr>callbacks := filter (\<lambda>e. fst e \<noteq> h) (callbacks st),
                        server_running := False, server_process := None\<rparr>;
               st2 = kill_startup_timer st1;
               stderr_text = stderr_of result
           in if is_pid_mismatch stderr_text
              then st2\<lparr>osd := osd st2 @ [NoticeIpcInUse], current_port := None\<rparr>
              else if is_connect_failure stderr_text
              then st2\<lparr>osd := osd st2 @ [NoticeCantConnect], current_port := None\<rparr>
              else if is_port_error stderr_text
              then try_start_on_port ports accepts (port_index + 1) st2
              else
                (let st3 =
                   (if was_confirmed_running
                    then (if \<not> success then st2\<lparr>osd := osd st2 @ [NoticeStoppedError]\<rparr>
                          else st2\<lparr>osd := osd st2 @ [NoticeStopped]\<rparr>)
                    else st2)
                 in st3\<lparr>current_port := None\<rparr>)))"

text \<open>The startup timeout numbered \<open>t\<close> runs, 0.5 s after it was armed, unless killed.\<close>

definition timeout_fires :: "nat \<Rightarrow> supervisor \<Rightarrow> supervisor" where
  "timeout_fires t st =
     (case map_of (armed st) t of
        None \<Rightarrow> st
      | Some port \<Rightarrow>
          (let st1 = st\<lparr>armed := filter (\<lambda>e. fst e \<noteq> t) (armed st), startup_timer := None\<rparr>
           in if server_process st1 \<noteq> None
              then st1\<lparr>server_running := True, osd := osd st1 @ [NoticeStarted port]\<rparr>
              else st1))"

definition start_server :: "int list \<Rightarrow> (nat \<Rightarrow> bool) \<Rightarrow> supervisor \<Rightarrow> supervisor" where
  "start_server ports accepts st =
     (if server_running st \<or> server_process st \<noteq> None
      then st\<lparr>osd := osd st @ [NoticeAlreadyRunning (current_port st)]\<rparr>
      else try_start_on_port ports accepts 1 (st\<lparr>osd := osd st @ [NoticeStarting]\<rparr>))"

definition stop_server :: "supervisor \<Rightarrow> supervisor" where
  "stop_server st =
     (case server_process st of
        None \<Rightarrow> st\<lparr>osd := osd st @ [NoticeNotRunning]\<rparr>
      | Some proc \<Rightarrow>
          st\<lparr>osd := osd st @ [NoticeStopping], server_process := None,
             server_running := False, aborted := aborted st @ [proc]\<rparr>)"

definition toggle_server :: "int list \<Rightarrow> (nat \<Rightarrow> bool) \<Rightarrow> supervisor \<Rightarrow> supervisor" where
  "toggle_server ports accepts st =
     (if server_running st \<or> server_process st \<noteq> None
      then stop_server st else start_server ports accepts st)"

definition shutdown :: "supervisor \<Rightarrow> supervisor" where
  "shutdown st =
     (let st1 = kill_startup_timer st in
      case server_process st1 of
        None \<Rightarrow> st1
      | Some proc \<Rightarrow>
          (if server_running st1 then st1\<lparr>aborted := aborted st1 @ [proc]\<rparr> else st1))"

datatype sup_event =
    Start
  | Stop
  | Toggle
  | Shutdown
  | TimeoutFires nat
  | Exit nat bool "proc_result option"

fun sup_step :: "int list \<Rightarrow> (nat \<Rightarrow> bool) \<Rightarrow> supervisor \<Rightarrow> sup_event \<Rightarrow> supervisor" where
  "sup_step ports accepts st Start = start_server ports accepts st"
| "sup_step ports accepts st Stop = stop_server st"
| "sup_step ports accepts st Toggle = toggle_server ports accepts st"
| "sup_step ports accepts st Shutdown = shutdown st"
| "sup_step ports accepts st (TimeoutFires t) = timeout_fires t st"
| "sup_step ports accepts st (Exit h success result) =
     exit_callback ports accepts h success result st"

definition sup_run ::
  "int list \<Rightarrow> (nat \<Rightarrow> bool) \<Rightarrow> supervisor \<Rightarrow> sup_event list \<Rightarrow> supervisor" where
  "sup_run ports accepts st es = foldl (sup_step ports accepts) st es"

definition idle :: supervisor where
  "idle =
     \<lparr> server_process = None, server_running = False, current_port = None,
       startup_timer = None, callbacks = [], armed = [], next_handle = 0,
       next_timeout = 0, spawned = [], aborted = [], osd = [] \<rparr>"

text \<open>
  The class of an exit, read off the order in which the callback tests the error text.
\<close>

datatype exit_class = PortInUse | IdentityMismatch | Unreachable | UnexpectedExit

definition classify :: "string \<Rightarrow> exit_class" where
  "classify stderr_text =
     (if is_pid_mismatch stderr_text then IdentityMismatch
      else if is_connect_failure stderr_text then Unreachable
      else if is_port_error stderr_text then PortInUse
      else UnexpectedExit)"

text \<open>
  A probing run: the helper started for each of the given outcomes is gone again, each
  time with the given success flag and result; \<open>True\<close> in the first component says the
  startup timeout of that attempt ran before the helper was gone. The attempts are
  numbered from \<open>j\<close>.
\<close>

fun probe :: "nat \<Rightarrow> (bool \<times> bool \<times> proc_result option) list \<Rightarrow> sup_event list" where
  "probe j [] = []"
| "probe j ((late, success, result) # xs) =
     (if late then [TimeoutFires j] else []) @ [Exit j success result] @ probe (j + 1) xs"

text \<open>
  The shapes of the state the probing run passes through: attempt number \<open>j\<close> (from 0)
  is under way and nothing else is pending; and all candidates are used up.
\<close>

definition starting :: "int list \<Rightarrow> nat \<Rightarrow> supervisor \<Rightarrow> bool" where
  "starting ports j st =
     (server_process st = Some j \<and> \<not> server_running st \<and>
      current_port st = Some (ports ! j) \<and> startup_timer st = Some j \<and>
      callbacks st = [(j, j + 1)] \<and> armed st = [(j, ports ! j)] \<and>
      next_handle st = j + 1 \<and> next_timeout st = j + 1 \<and>
      spawned st = take (j + 1) ports \<and> aborted st = [])"

definition exhausted :: "int list \<Rightarrow> supervisor \<Rightarrow> bool" where
  "exhausted ports st =
     (server_process st = None \<and> \<not> server_running st \<and> startup_timer st = None \<and>
      callbacks st = [] \<and> armed st = [] \<and> spawned st = ports \<and> aborted st = [] \<and>
      osd st \<noteq> [] \<and> last (osd st) = NoticeFailedAnyPort)"

section \<open>Example data for the closed instances\<close>

definition example_item :: "nat \<Rightarrow> real \<Rightarrow> SubtitleMessage" where
  "example_item port n =
     \<lparr> msg_id = Finite n, subtitle = ''line'', time_pos = Finite n, sub_start = Finite n,
       sub_end = Finite (n + 1), thumbnail = None, audio = None,
       sourcePort = port, uid = (port, Finite n) \<rparr>"

definition subtitle_json :: "real \<Rightarrow> json" where
  "subtitle_json n =
     JObj [(''type'', JStr ''subtitle''), (''id'', JNum (Finite n)),
           (''subtitle'', JStr ''line''), (''time_pos'', JNum (Finite n)),
           (''sub_start'', JNum (Finite n)), (''sub_end'', JNum (Finite (n + 1)))]"

text \<open>
  A client whose store holds 200 subtitle lines, numbered 0 to 199, from port 61777, with
  the first of them selected.
\<close>

definition full_store :: client where
  "full_store =
     \<lparr> objs = (\<lambda>a. example_item 61777 (real a)), next_obj = 200, messages = [0..<200],
       selectedMessages = [(61777, Finite 0)], loadingMedia = [], pendingAudioRange = None,
       connectedPorts = [61777], now = 0, timers = [], next_caller = 0, sent = [],
       resolved = [] \<rparr>"

definition default_ports :: "int list" where
  "default_ports = [61777, 61778, 61779, 61780, 61781]"

definition always :: "nat \<Rightarrow> bool" where
  "always h = True"

definition stderr_only :: "string \<Rightarrow> proc_result option" where
  "stderr_only s = Some \<lparr> r_stdout = None, r_stderr = Some s \<rparr>"

definition example_env :: export_env where
  "example_env =
     \<lparr> ankiConfigured = True, sentenceField = ''Sentence'', audioField = ''Audio'',
       imageField = ''Image'', maxCardAgeMinutes = Some 5, getLastNote = Inr (Some 1000),
       date_now = 2000, awaited_audio = Some ''QUJD'', awaited_image = None,
       storeMediaFile = None, updateNoteFields = None \<rparr>"

text \<open>
  A client connected to port 61777 with nothing pending, and two runs of range requests
  for the key of items 3 to 5 on that port. In the first, the answer to the first request
  arrives after 50 ms, the range is asked for again after 8 s, and a third time after
  15.5 s, while the second request is still unanswered. In the second, nothing is ever
  answered; the range is asked for at 0 s and again at 5 s.
\<close>

definition fresh_client :: client where
  "fresh_client =
     \<lparr> objs = (\<lambda>a. example_item 61777 (real a)), next_obj = 0, messages = [],
       selectedMessages = [], loadingMedia = [], pendingAudioRange = None,
       connectedPorts = [61777], now = 0, timers = [], next_caller = 0, sent = [],
       resolved = [] \<rparr>"

definition audio_range_json :: "real \<Rightarrow> real \<Rightarrow> json" where
  "audio_range_json a b =
     JObj [(''type'', JStr ''audio_range''), (''start_id'', JNum (Finite a)),
           (''end_id'', JNum (Finite b)), (''data'', JStr ''QUJD'')]"

definition stale_deadline_trace :: "event list" where
  "stale_deadline_trace =
     [RequestRange (Finite 3) (Finite 5) 61777,
      Advance 50, Message (audio_range_json 3 5) 61777,
      Fire (Poll 0),
      Advance 8000, RequestRange (Finite 3) (Finite 5) 61777,
      Fire (Poll 1),
      Advance 15000, Fire (Deadline 0),
      Advance 15500, RequestRange (Finite 3) (Finite 5) 61777]"


text \<open>
  Two subtitle messages for line 7, one without \<open>time_pos\<close> and one whose
  \<open>time_pos\<close> is not a number.
\<close>

definition line_without_time_pos :: "(string \<times> json) list" where
  "line_without_time_pos =
     [(''type'', JStr ''subtitle''), (''id'', JNum (Finite 7)), (''subtitle'', JStr ''hello''),
      (''sub_start'', JNum (Finite 12)), (''sub_end'', JNum (Finite 15))]"

definition line_with_nan_time_pos :: "(string \<times> json) list" where
  "line_with_nan_time_pos =
     [(''type'', JStr ''subtitle''), (''id'', JNum (Finite 7)), (''subtitle'', JStr ''hello''),
      (''time_pos'', JNum NaN),
      (''sub_start'', JNum (Finite 12)), (''sub_end'', JNum (Finite 15))]"

text \<open>A sequence of inbound messages, each with the port it arrived on, as events.\<close>

definition inbound :: "(json \<times> nat) list \<Rightarrow> event list" where
  "inbound ins = map (\<lambda>(d, p). Message d p) ins"

section \<open>Facts about the selection and the store\<close>

lemma set_selectedIndices:
  "set (selectedIndices msgs sel) = selected_positions msgs sel"
  by (auto simp: selectedIndices_def selected_positions_def)

lemma finite_selected_positions: "finite (selected_positions msgs sel)"
proof -
  have "selected_positions msgs sel = set (selectedIndices msgs sel)"
    by (simp add: set_selectedIndices)
  then show ?thesis by simp
qed

lemma sorted_selectedIndices: "sorted (selectedIndices msgs sel)"
  by (simp add: selectedIndices_def)

lemma at_first_sorted:
  assumes "sorted (xs :: int list)"
  shows "at_first xs = (if xs = [] then None else Some (Min (set xs)))"
proof (cases xs)
  case Nil
  then show ?thesis by (simp add: at_first_def)
next
  case (Cons x ys)
  with assms have "\<forall>y \<in> set ys. x \<le> y" by simp
  then have "Min (set (x # ys)) = x"
    by (intro Min_eqI) auto
  with Cons show ?thesis by (simp add: at_first_def)
qed

lemma at_last_sorted:
  assumes "sorted (xs :: int list)"
  shows "at_last xs = (if xs = [] then None else Some (Max (set xs)))"
proof (cases "xs = []")
  case True
  then show ?thesis by (simp add: at_last_def)
next
  case False
  have "\<forall>y \<in> set xs. y \<le> last xs"
  proof
    fix y assume "y \<in> set xs"
    then obtain i where i: "i < length xs" "xs ! i = y"
      by (auto simp: in_set_conv_nth)
    from False have "last xs = xs ! (length xs - 1)"
      by (simp add: last_conv_nth)
    moreover from assms i have "xs ! i \<le> xs ! (length xs - 1)"
      by (intro sorted_nth_mono) auto
    ultimately show "y \<le> last xs" using i by simp
  qed
  moreover from False have "last xs \<in> set xs" by simp
  ultimately have "Max (set xs) = last xs"
    by (intro Max_eqI) auto
  with False show ?thesis by (simp add: at_last_def)
qed

lemma first_selectedIndices:
  "at_first (selectedIndices msgs sel) =
     (if selected_positions msgs sel = {} then None
      else Some (Min (selected_positions msgs sel)))"
  using at_first_sorted [OF sorted_selectedIndices, of msgs sel]
    set_selectedIndices [of msgs sel]
  by (metis set_empty)

lemma last_selectedIndices:
  "at_last (selectedIndices msgs sel) =
     (if selected_positions msgs sel = {} then None
      else Some (Max (selected_positions msgs sel)))"
  using at_last_sorted [OF sorted_selectedIndices, of msgs sel]
    set_selectedIndices [of msgs sel]
  by (metis set_empty)

lemma onMessage_cap:
  "length (messages st) \<le> 200 \<Longrightarrow> length (messages (onMessage st data port)) \<le> 200"
  by (auto simp: onMessage_def Let_def split: option.splits json.splits prod.splits)

lemma onMessage_selection:
  "selectedMessages (onMessage st data port) = selectedMessages st"
  by (auto simp: onMessage_def Let_def split: option.splits json.splits prod.splits)

lemma run_inbound_cap:
  "length (messages st) \<le> 200 \<Longrightarrow>
   length (messages (run st (inbound ins))) \<le> 200 \<and>
   selectedMessages (run st (inbound ins)) = selectedMessages st"
proof (induction ins arbitrary: st)
  case Nil
  then show ?case by (simp add: run_def inbound_def)
next
  case (Cons x xs)
  obtain d p where x: "x = (d, p)" by (cases x)
  have "length (messages (onMessage st d p)) \<le> 200"
    using Cons.prems by (rule onMessage_cap)
  from Cons.IH [OF this] show ?case
    by (simp add: run_def inbound_def x onMessage_selection)
qed

lemma onMessage_evicts_oldest:
  "length (messages st) = 200 \<Longrightarrow> map_of kvs ''type'' = Some (JStr ''subtitle'') \<Longrightarrow>
   parseSubtitleMessage (map_of kvs) port = Some m \<Longrightarrow>
   messages (onMessage st (JObj kvs) port) = tl (messages st) @ [next_obj st] \<and>
   objs (onMessage st (JObj kvs) port) (next_obj st) = m"
  by (cases "messages st") (auto simp: onMessage_def Let_def)

lemma parse_subtitle_json_200:
  "parseSubtitleMessage (map_of [(''type'', JStr ''subtitle''), (''id'', JNum (Finite 200)),
       (''subtitle'', JStr ''line''), (''time_pos'', JNum (Finite 200)),
       (''sub_start'', JNum (Finite 200)), (''sub_end'', JNum (Finite (200 + 1)))]) 61777
     = Some (example_item 61777 200)"
  by (simp add: parseSubtitleMessage_def example_item_def)

lemma full_store_after_201st:
  "messages (onMessage full_store (subtitle_json 200) 61777) = [1..<200] @ [200]"
  "objs (onMessage full_store (subtitle_json 200) 61777) = (\<lambda>a. example_item 61777 (real a))"
  using parse_subtitle_json_200
  by (auto simp: onMessage_def subtitle_json_def full_store_def Let_def tl_upt fun_eq_iff
      simp del: upt_Suc)

section \<open>Facts about the supervisor\<close>

lemma classify_PortInUse:
  "classify s = PortInUse \<longleftrightarrow> \<not> is_pid_mismatch s \<and> \<not> is_connect_failure s \<and> is_port_error s"
  by (simp add: classify_def)

lemma take_all_but_last:
  "Suc j = length ports \<Longrightarrow> take j ports @ [ports ! j] = ports"
  by (metis lessI order_refl take_Suc_conv_app_nth take_all)

lemma start_server_idle:
  assumes "accepts 0" "ports \<noteq> []"
  shows "starting ports 0 (start_server ports accepts idle)"
  using assms
  by (cases ports) (simp_all add: starting_def start_server_def idle_def try_start_on_port_def Let_def)

lemma exit_port_in_use:
  assumes st: "starting ports j st" and j: "j < length ports"
    and acc: "accepts (j + 1)"
    and cl: "classify (stderr_of result) = PortInUse"
  shows "(j + 1 < length ports \<longrightarrow>
            starting ports (j + 1) (exit_callback ports accepts j success result st)) \<and>
         (j + 1 = length ports \<longrightarrow>
            exhausted ports (exit_callback ports accepts j success result st))"
  using assms
  by (auto simp: classify_PortInUse starting_def exhausted_def exit_callback_def
      try_start_on_port_def kill_startup_timer_def Let_def take_Suc_conv_app_nth
      take_all_but_last)

lemma timeout_then_exit:
  assumes st: "starting ports j st" and j: "j < length ports"
    and acc: "accepts (j + 1)"
    and cl: "classify (stderr_of result) = PortInUse"
  shows "(j + 1 < length ports \<longrightarrow>
            starting ports (j + 1)
              (exit_callback ports accepts j success result (timeout_fires j st))) \<and>
         (j + 1 = length ports \<longrightarrow>
            exhausted ports (exit_callback ports accepts j success result (timeout_fires j st)))"
  using assms
  by (auto simp: classify_PortInUse starting_def exhausted_def exit_callback_def timeout_fires_def
      try_start_on_port_def kill_startup_timer_def Let_def take_Suc_conv_app_nth
      take_all_but_last)

lemma sup_run_append:
  "sup_run ports accepts st (es @ fs) = sup_run ports accepts (sup_run ports accepts st es) fs"
  by (simp add: sup_run_def)

lemma sup_run_Cons:
  "sup_run ports accepts st (e # es) = sup_run ports accepts (sup_step ports accepts st e) es"
  by (simp add: sup_run_def)

lemma sup_run_Nil: "sup_run ports accepts st [] = st"
  by (simp add: sup_run_def)

lemma probe_run:
  assumes "\<forall>h. accepts h"
    and "\<forall>x \<in> set xs. classify (stderr_of (snd (snd x))) = PortInUse"
    and "starting ports j st"
    and "j + length xs \<le> length ports" "j < length ports"
  shows "(j + length xs < length ports \<longrightarrow>
            starting ports (j + length xs) (sup_run ports accepts st (probe j xs))) \<and>
         (j + length xs = length ports \<longrightarrow>
            exhausted ports (sup_run ports accepts st (probe j xs)))"
  using assms
proof (induction xs arbitrary: j st)
  case Nil
  then show ?case by (simp add: sup_run_Nil)
next
  case (Cons x xs)
  obtain late success result where x: "x = (late, success, result)"
    by (cases x)
  let ?st1 = "sup_run ports accepts st
      ((if late then [TimeoutFires j] else []) @ [Exit j success result])"
  have cl: "classify (stderr_of result) = PortInUse"
    using Cons.prems(2) x by simp
  have acc: "accepts (j + 1)" using Cons.prems(1) by simp
  have step: "(j + 1 < length ports \<longrightarrow> starting ports (j + 1) ?st1) \<and>
              (j + 1 = length ports \<longrightarrow> exhausted ports ?st1)"
  proof (cases late)
    case True
    with timeout_then_exit [where accepts = accepts, OF Cons.prems(3) Cons.prems(5) acc cl, of success]
    show ?thesis by (simp add: sup_run_Cons sup_run_Nil)
  next
    case False
    with exit_port_in_use [where accepts = accepts, OF Cons.prems(3) Cons.prems(5) acc cl, of success]
    show ?thesis by (simp add: sup_run_Cons sup_run_Nil)
  qed
  have run: "sup_run ports accepts st (probe j (x # xs)) =
             sup_run ports accepts ?st1 (probe (j + 1) xs)"
    by (simp add: x sup_run_append [symmetric])
  show ?case
  proof (cases "j + 1 < length ports")
    case True
    with step have s1: "starting ports (j + 1) ?st1" by simp
    have "\<forall>x \<in> set xs. classify (stderr_of (snd (snd x))) = PortInUse"
      using Cons.prems(2) by simp
    moreover have "j + 1 + length xs \<le> length ports" using Cons.prems(4) by simp
    ultimately show ?thesis
      using Cons.IH [OF Cons.prems(1) _ s1 _ True] run by simp
  next
    case False
    with Cons.prems(4) Cons.prems(5) have e: "j + 1 = length ports" "xs = []"
      by (cases xs; simp)+
    with step have "exhausted ports ?st1" by simp
    with e run show ?thesis by (simp add: sup_run_Nil)
  qed
qed


text \<open>
  Claim C1. The host accepts every command. The helpers started for the first \<open>k\<close>
  candidates are each gone again with an exit classified as port-in-use (before or
  after their startup timeout ran). If \<open>k\<close> is less than the number of candidates and
  the startup timeout of attempt \<open>k + 1\<close> then runs, the helper has been started on
  exactly the first \<open>k + 1\<close> candidates, in order, and the supervisor is confirmed
  running on candidate \<open>k + 1\<close>. If all candidates are used up this way, the supervisor
  ends with the notice that no port could be used, with no process handle, not running
  and with no startup timer.
\<close>

theorem probing_ends_confirmed_or_exhausted:
  assumes "\<forall>h. accepts h"
    and "\<forall>x \<in> set xs. classify (stderr_of (snd (snd x))) = PortInUse"
  shows
   "(length xs < length ports \<longrightarrow>
       spawned (sup_run ports accepts idle (Start # probe 0 xs @ [TimeoutFires (length xs)]))
         = take (length xs + 1) ports \<and>
       server_running (sup_run ports accepts idle (Start # probe 0 xs @ [TimeoutFires (length xs)])) \<and>
       server_process (sup_run ports accepts idle (Start # probe 0 xs @ [TimeoutFires (length xs)]))
         = Some (length xs) \<and>
       current_port (sup_run ports accepts idle (Start # probe 0 xs @ [TimeoutFires (length xs)]))
         = Some (ports ! length xs) \<and>
       last (osd (sup_run ports accepts idle (Start # probe 0 xs @ [TimeoutFires (length xs)])))
         = NoticeStarted (ports ! length xs)) \<and>
    (length xs = length ports \<and> ports \<noteq> [] \<longrightarrow>
       spawned (sup_run ports accepts idle (Start # probe 0 xs)) = ports \<and>
       server_process (sup_run ports accepts idle (Start # probe 0 xs)) = None \<and>
       \<not> server_running (sup_run ports accepts idle (Start # probe 0 xs)) \<and>
       startup_timer (sup_run ports accepts idle (Start # probe 0 xs)) = None \<and>
       last (osd (sup_run ports accepts idle (Start # probe 0 xs))) = NoticeFailedAnyPort)"
proof (intro conjI impI)
  assume lt: "length xs < length ports"
  then have ne: "ports \<noteq> []" by auto
  have s0: "starting ports 0 (start_server ports accepts idle)"
    using assms(1) ne by (intro start_server_idle) simp_all
  have "starting ports (length xs)
          (sup_run ports accepts (start_server ports accepts idle) (probe 0 xs))"
    using probe_run [OF assms(1) assms(2) s0] lt ne by simp
  then have c: "starting ports (length xs) (sup_run ports accepts idle (Start # probe 0 xs))"
    by (simp add: sup_run_Cons)
  let ?st = "sup_run ports accepts idle (Start # probe 0 xs)"
  have r: "sup_run ports accepts idle (Start # probe 0 xs @ [TimeoutFires (length xs)])
        = timeout_fires (length xs) ?st"
    using sup_run_append [of ports accepts idle "Start # probe 0 xs" "[TimeoutFires (length xs)]"]
    by (simp add: sup_run_Cons sup_run_Nil)
  show "spawned (sup_run ports accepts idle (Start # probe 0 xs @ [TimeoutFires (length xs)]))
         = take (length xs + 1) ports"
    unfolding r using c by (simp add: starting_def timeout_fires_def)
  show "server_running (sup_run ports accepts idle (Start # probe 0 xs @ [TimeoutFires (length xs)]))"
    unfolding r using c by (simp add: starting_def timeout_fires_def)
  show "server_process (sup_run ports accepts idle (Start # probe 0 xs @ [TimeoutFires (length xs)]))
         = Some (length xs)"
    unfolding r using c by (simp add: starting_def timeout_fires_def)
  show "current_port (sup_run ports accepts idle (Start # probe 0 xs @ [TimeoutFires (length xs)]))
         = Some (ports ! length xs)"
    unfolding r using c by (simp add: starting_def timeout_fires_def)
  show "last (osd (sup_run ports accepts idle (Start # probe 0 xs @ [TimeoutFires (length xs)])))
         = NoticeStarted (ports ! length xs)"
    unfolding r using c by (simp add: starting_def timeout_fires_def)
next
  assume a: "length xs = length ports \<and> ports \<noteq> []"
  have s0: "starting ports 0 (start_server ports accepts idle)"
    using assms(1) a by (intro start_server_idle) simp_all
  have "exhausted ports (sup_run ports accepts (start_server ports accepts idle) (probe 0 xs))"
    using probe_run [OF assms(1) assms(2) s0] a by simp
  then have e: "exhausted ports (sup_run ports accepts idle (Start # probe 0 xs))"
    by (simp add: sup_run_Cons)
  then show "spawned (sup_run ports accepts idle (Start # probe 0 xs)) = ports"
    "server_process (sup_run ports accepts idle (Start # probe 0 xs)) = None"
    "\<not> server_running (sup_run ports accepts idle (Start # probe 0 xs))"
    "startup_timer (sup_run ports accepts idle (Start # probe 0 xs)) = None"
    "last (osd (sup_run ports accepts idle (Start # probe 0 xs))) = NoticeFailedAnyPort"
    by (simp_all add: exhausted_def)
qed


theorem probing_ends_confirmed_or_exhausted_witness:
  "spawned (sup_run default_ports always idle
       (Start # probe 0 [(False, False, stderr_only ''Error: Address already in use''),
                        (True, False, stderr_only ''bind failed (os error 10048)'')]
          @ [TimeoutFires 2])) = [61777, 61778, 61779] \<and>
   server_running (sup_run default_ports always idle
       (Start # probe 0 [(False, False, stderr_only ''Error: Address already in use''),
                        (True, False, stderr_only ''bind failed (os error 10048)'')]
          @ [TimeoutFires 2])) \<and>
   current_port (sup_run default_ports always idle
       (Start # probe 0 [(False, False, stderr_only ''Error: Address already in use''),
                        (True, False, stderr_only ''bind failed (os error 10048)'')]
          @ [TimeoutFires 2])) = Some 61779 \<and>
   spawned (sup_run [61777, 61778] always idle
       (Start # probe 0 [(False, False, stderr_only ''Error: Address already in use''),
                        (True, False, stderr_only ''bind failed (os error 10048)'')]))
     = [61777, 61778] \<and>
   server_process (sup_run [61777, 61778] always idle
       (Start # probe 0 [(False, False, stderr_only ''Error: Address already in use''),
                        (True, False, stderr_only ''bind failed (os error 10048)'')])) = None \<and>
   last (osd (sup_run [61777, 61778] always idle
       (Start # probe 0 [(False, False, stderr_only ''Error: Address already in use''),
                        (True, False, stderr_only ''bind failed (os error 10048)'')])))
     = NoticeFailedAnyPort"
proof -
  have a: "\<forall>h. always h" by (simp add: always_def)
  have c: "\<forall>x \<in> set [(False, False, stderr_only ''Error: Address already in use''),
                        (True, False, stderr_only ''bind failed (os error 10048)'')].
             classify (stderr_of (snd (snd x))) = PortInUse"
    by (simp add: classify_def stderr_of_def stderr_only_def is_pid_mismatch_def
        is_connect_failure_def is_port_error_def)
  from probing_ends_confirmed_or_exhausted [OF a c, of default_ports]
    probing_ends_confirmed_or_exhausted [OF a c, of "[61777, 61778]"]
  show ?thesis
    by (simp add: default_ports_def numeral_2_eq_2)
qed

text \<open>
  Claim C2, as amended. The exit callback tests the error text for its markers in a
  fixed order. The identity-mismatch marker comes first: no further helper is started
  and the notice about the other player instance is shown. Without it, a connect-failure
  marker ends the run the same way with its own notice. Without either, a port-in-use
  marker makes the supervisor go on with the next candidate port, or report that no port
  could be used when there is none left. With no marker at all no further helper is
  started either.
\<close>

theorem exit_classification_order:
  assumes "map_of (callbacks st) h = Some i"
  shows
   "(is_pid_mismatch (stderr_of result) \<longrightarrow>
       spawned (exit_callback ports accepts h success result st) = spawned st \<and>
       server_process (exit_callback ports accepts h success result st) = None \<and>
       current_port (exit_callback ports accepts h success result st) = None \<and>
       osd (exit_callback ports accepts h success result st) = osd st @ [NoticeIpcInUse]) \<and>
    (\<not> is_pid_mismatch (stderr_of result) \<and> is_connect_failure (stderr_of result) \<longrightarrow>
       spawned (exit_callback ports accepts h success result st) = spawned st \<and>
       server_process (exit_callback ports accepts h success result st) = None \<and>
       current_port (exit_callback ports accepts h success result st) = None \<and>
       osd (exit_callback ports accepts h success result st) = osd st @ [NoticeCantConnect]) \<and>
    (\<not> is_pid_mismatch (stderr_of result) \<and> \<not> is_connect_failure (stderr_of result) \<and>
     is_port_error (stderr_of result) \<and> i < length ports \<longrightarrow>
       spawned (exit_callback ports accepts h success result st) = spawned st @ [ports ! i] \<and>
       current_port (exit_callback ports accepts h success result st) = Some (ports ! i)) \<and>
    (\<not> is_pid_mismatch (stderr_of result) \<and> \<not> is_connect_failure (stderr_of result) \<and>
     is_port_error (stderr_of result) \<and> length ports \<le> i \<longrightarrow>
       spawned (exit_callback ports accepts h success result st) = spawned st \<and>
       server_process (exit_callback ports accepts h success result st) = None \<and>
       osd (exit_callback ports accepts h success result st) = osd st @ [NoticeFailedAnyPort]) \<and>
    (\<not> is_pid_mismatch (stderr_of result) \<and> \<not> is_connect_failure (stderr_of result) \<and>
     \<not> is_port_error (stderr_of result) \<longrightarrow>
       spawned (exit_callback ports accepts h success result st) = spawned st \<and>
       server_process (exit_callback ports accepts h success result st) = None \<and>
       current_port (exit_callback ports accepts h success result st) = None)"
  using assms
  by (auto simp: exit_callback_def try_start_on_port_def kill_startup_timer_def Let_def
      split: option.splits)

text \<open>
  Claim C8, as amended. An exit with no marker in its error text is reported to the user
  exactly when the supervisor's \<open>server_running\<close> flag is set at the time the exit
  callback runs, with the error notice for a failed command and the plain one otherwise.
\<close>

theorem unexpected_exit_report:
  assumes "map_of (callbacks st) h = Some i"
    and "classify (stderr_of result) = UnexpectedExit"
  shows "osd (exit_callback ports accepts h success result st) =
         osd st @ (if server_running st
                   then [if success then NoticeStopped else NoticeStoppedError] else [])"
  using assms
  by (auto simp: classify_def exit_callback_def kill_startup_timer_def Let_def
      split: option.splits if_splits)


lemmas sup_defs = sup_run_def default_ports_def always_def idle_def start_server_def
  try_start_on_port_def timeout_fires_def stop_server_def exit_callback_def
  kill_startup_timer_def stderr_of_def stderr_only_def is_pid_mismatch_def
  is_connect_failure_def is_port_error_def Let_def

lemma started_callbacks:
  "map_of (callbacks (start_server default_ports always idle)) 0 = Some 1"
  "spawned (start_server default_ports always idle) = [61777]"
  "osd (start_server default_ports always idle) = [NoticeStarting]"
  by (simp_all add: sup_defs)

theorem exit_classification_order_witness:
  "osd (exit_callback default_ports always 0 False (stderr_only ''MPV_IPC_PID_MISMATCH'')
          (start_server default_ports always idle)) = [NoticeStarting, NoticeIpcInUse] \<and>
   spawned (exit_callback default_ports always 0 False (stderr_only ''MPV_IPC_PID_MISMATCH'')
          (start_server default_ports always idle)) = [61777] \<and>
   osd (exit_callback default_ports always 0 False
          (stderr_only ''Failed to connect to mpv socket'')
          (start_server default_ports always idle)) = [NoticeStarting, NoticeCantConnect] \<and>
   spawned (exit_callback default_ports always 0 False
          (stderr_only ''Error: Address already in use'')
          (start_server default_ports always idle)) = [61777, 61778] \<and>
   osd (exit_callback [61777] always 0 False (stderr_only ''os error 98'')
          (start_server default_ports always idle)) = [NoticeStarting, NoticeFailedAnyPort] \<and>
   spawned (exit_callback default_ports always 0 False (stderr_only ''killed'')
          (start_server default_ports always idle)) = [61777]"
proof -
  have m: "is_pid_mismatch (stderr_of (stderr_only ''MPV_IPC_PID_MISMATCH''))"
    "\<not> is_pid_mismatch (stderr_of (stderr_only ''Failed to connect to mpv socket''))"
    "is_connect_failure (stderr_of (stderr_only ''Failed to connect to mpv socket''))"
    "\<not> is_pid_mismatch (stderr_of (stderr_only ''Error: Address already in use''))"
    "\<not> is_connect_failure (stderr_of (stderr_only ''Error: Address already in use''))"
    "is_port_error (stderr_of (stderr_only ''Error: Address already in use''))"
    "\<not> is_pid_mismatch (stderr_of (stderr_only ''os error 98''))"
    "\<not> is_connect_failure (stderr_of (stderr_only ''os error 98''))"
    "is_port_error (stderr_of (stderr_only ''os error 98''))"
    "\<not> is_pid_mismatch (stderr_of (stderr_only ''killed''))"
    "\<not> is_connect_failure (stderr_of (stderr_only ''killed''))"
    "\<not> is_port_error (stderr_of (stderr_only ''killed''))"
    by (simp_all add: stderr_of_def stderr_only_def is_pid_mismatch_def
        is_connect_failure_def is_port_error_def)
  have p: "1 < length default_ports" "default_ports ! 1 = 61778" "length [61777::int] \<le> 1"
    by (simp_all add: default_ports_def)
  from
    exit_classification_order [OF started_callbacks(1),
      of "stderr_only ''MPV_IPC_PID_MISMATCH''" default_ports always False]
    exit_classification_order [OF started_callbacks(1),
      of "stderr_only ''Failed to connect to mpv socket''" default_ports always False]
    exit_classification_order [OF started_callbacks(1),
      of "stderr_only ''Error: Address already in use''" default_ports always False]
    exit_classification_order [OF started_callbacks(1),
      of "stderr_only ''os error 98''" "[61777]" always False]
    exit_classification_order [OF started_callbacks(1),
      of "stderr_only ''killed''" default_ports always False]
  show ?thesis
    using m p by (simp add: started_callbacks)
qed

text \<open>
  An error text that holds a port-in-use marker and the identity-mismatch marker: the
  helper is not started on the next candidate, and the mismatch notice is shown.
\<close>

theorem port_marker_with_mismatch_marker_not_retried:
  "is_port_error ''Address already in use; MPV_IPC_PID_MISMATCH'' \<and>
   spawned (sup_run default_ports always idle
     [Start, Exit 0 False (stderr_only ''Address already in use; MPV_IPC_PID_MISMATCH'')])
     = [61777] \<and>
   osd (sup_run default_ports always idle
     [Start, Exit 0 False (stderr_only ''Address already in use; MPV_IPC_PID_MISMATCH'')])
     = [NoticeStarting, NoticeIpcInUse] \<and>
   server_process (sup_run default_ports always idle
     [Start, Exit 0 False (stderr_only ''Address already in use; MPV_IPC_PID_MISMATCH'')])
     = None"
  by (simp add: sup_defs)

lemma confirmed_state:
  "map_of (callbacks (sup_run default_ports always idle [Start, TimeoutFires 0])) 0 = Some 1"
  "server_running (sup_run default_ports always idle [Start, TimeoutFires 0])"
  "osd (sup_run default_ports always idle [Start, TimeoutFires 0])
     = [NoticeStarting, NoticeStarted 61777]"
  by (simp_all add: sup_defs)

theorem unexpected_exit_report_witness:
  "osd (exit_callback default_ports always 0 False (stderr_only ''killed'')
          (sup_run default_ports always idle [Start, TimeoutFires 0]))
     = [NoticeStarting, NoticeStarted 61777, NoticeStoppedError] \<and>
   osd (exit_callback default_ports always 0 False (stderr_only ''killed'')
          (start_server default_ports always idle)) = [NoticeStarting]"
proof -
  have c: "classify (stderr_of (stderr_only ''killed'')) = UnexpectedExit"
    by (simp add: classify_def sup_defs)
  have n: "\<not> server_running (start_server default_ports always idle)"
    by (simp add: sup_defs)
  from unexpected_exit_report [OF confirmed_state(1) c, of default_ports always False]
    unexpected_exit_report [OF started_callbacks(1) c, of default_ports always False]
  show ?thesis
    by (simp add: confirmed_state started_callbacks n)
qed

text \<open>
  A helper that was confirmed running and is then stopped by the user: its exit carries
  no marker and is not reported, since \<open>stop_server\<close> has cleared the flag.
\<close>

theorem confirmed_then_stopped_exit_is_silent:
  "server_running (sup_run default_ports always idle [Start, TimeoutFires 0]) \<and>
   server_process (sup_run default_ports always idle [Start, TimeoutFires 0]) = Some 0 \<and>
   osd (sup_run default_ports always idle [Start, TimeoutFires 0])
     = [NoticeStarting, NoticeStarted 61777] \<and>
   classify (stderr_of (stderr_only ''killed'')) = UnexpectedExit \<and>
   osd (sup_run default_ports always idle
          [Start, TimeoutFires 0, Stop, Exit 0 False (stderr_only ''killed'')])
     = [NoticeStarting, NoticeStarted 61777, NoticeStopping]"
  by (simp add: sup_defs classify_def)

text \<open>
  Claim C9. The exit callback and the shutdown handler kill the startup timer, but
  \<open>stop_server\<close> does not: after start and stop the timer is still armed. When the
  server is started again before it runs, it then marks the new helper as confirmed
  while the new helper's own timer is still armed.
\<close>

theorem stop_leaves_startup_timer_armed:
  "startup_timer (sup_run default_ports always idle [Start, Stop]) = Some 0 \<and>
   armed (sup_run default_ports always idle [Start, Stop]) = [(0, 61777)] \<and>
   server_process (sup_run default_ports always idle [Start, Stop, Start]) = Some 1 \<and>
   \<not> server_running (sup_run default_ports always idle [Start, Stop, Start]) \<and>
   armed (sup_run default_ports always idle [Start, Stop, Start]) = [(0, 61777), (1, 61777)] \<and>
   server_running (sup_run default_ports always idle [Start, Stop, Start, TimeoutFires 0]) \<and>
   armed (sup_run default_ports always idle [Start, Stop, Start, TimeoutFires 0])
     = [(1, 61777)] \<and>
   osd (sup_run default_ports always idle [Start, Stop, Start, TimeoutFires 0])
     = [NoticeStarting, NoticeStopping, NoticeStarting, NoticeStarted 61777] \<and>
   startup_timer (sup_run default_ports always idle [Start, Exit 0 False (stderr_only ''killed'')])
     = None \<and>
   armed (sup_run default_ports always idle [Start, Exit 0 False (stderr_only ''killed'')]) = [] \<and>
   startup_timer (sup_run default_ports always idle [Start, Shutdown]) = None \<and>
   armed (sup_run default_ports always idle [Start, Shutdown]) = []"
  by (simp add: sup_defs shutdown_def)


section \<open>Facts about the requests\<close>

lemmas client_defs = run_def requestAudioRange_def requestMediaFromServer_def
  ws_status_connected_def sendToPort_def ws_send_def arm_def resolve_def set_add_def
  set_delete_def fire_def deadline_cb_def clearInterval_def onMessage_def Let_def
  fresh_client_def audio_range_json_def








lemma deadline_at_arm_mono:
  "deadline_at st c t \<Longrightarrow> deadline_at (arm st c' r rq k ms) c t"
  by (simp add: deadline_at_def arm_def)


















lemma request_with_marker_sends_nothing:
  "RangeKey p a b \<in> set (loadingMedia st) \<Longrightarrow> sent (requestAudioRange st a b p) = sent st"
  "MediaKey type (uid (objs st ref)) (end_of endId) \<in> set (loadingMedia st) \<Longrightarrow>
     sent (requestMediaFromServer st ref type endId) = sent st"
  by (simp_all add: requestAudioRange_def requestMediaFromServer_def Let_def resolve_def arm_def)

text \<open>
  Claim C3. A request whose key carries a pending marker joins and sends nothing (the
  lemma above). But the timeout of the call that sent the request is never cancelled and
  deletes the marker of its key whatever the marker belongs to by then. In the first run
  the timeout of the first, long resolved call deletes the marker of the second call's
  request at 15 s; the third call at 15.5 s finds no marker and transmits again, while
  the second call is still waiting for its answer: three transmissions for one key, two
  of them unanswered at the same time.
\<close>

theorem stale_deadline_lets_key_transmit_again:
  "sent (run fresh_client stale_deadline_trace) =
     [(0, 61777, RangePayload (Finite 3) (Finite 5)),
      (8000, 61777, RangePayload (Finite 3) (Finite 5)),
      (15500, 61777, RangePayload (Finite 3) (Finite 5))] \<and>
   resolved (run fresh_client stale_deadline_trace) = [(0, Some ''QUJD'', 100)] \<and>
   map t_id (timers (run fresh_client stale_deadline_trace)) =
     [Poll 1, Deadline 1, Poll 2, Deadline 2] \<and>
   map t_role (timers (run fresh_client stale_deadline_trace)) = [Own, Own, Own, Own] \<and>
   map due (timers (run fresh_client stale_deadline_trace)) = [8200, 23000, 15600, 30500] \<and>
   now (run fresh_client stale_deadline_trace) = 15500"
  by (simp add: client_defs stale_deadline_trace_def)






section \<open>Claims about the selection and the store\<close>

text \<open>
  Claim C4. Toggling an item whose uid is selected removes it exactly when the given
  position is the least or the greatest position the selection occupies in the store,
  and otherwise changes nothing; toggling an item that is not selected makes it the
  only selected item when the selection is empty, adds it to a non-empty selection
  exactly when the given position is one below the least or one above the greatest
  selected position, and otherwise changes nothing.
\<close>

theorem toggleSelection_boundary_rule:
  "toggleSelection msgs sel msg index =
     (if uid msg \<in> set sel then
        (if selected_positions msgs sel \<noteq> {} \<and>
            (index = Min (selected_positions msgs sel) \<or>
             index = Max (selected_positions msgs sel))
         then removeAll (uid msg) sel else sel)
      else if sel = [] then [uid msg]
      else
        (if selected_positions msgs sel \<noteq> {} \<and>
            (index = Min (selected_positions msgs sel) - 1 \<or>
             index = Max (selected_positions msgs sel) + 1)
         then sel @ [uid msg] else sel))"
  by (auto simp: toggleSelection_def Let_def set_has_def set_add_def set_delete_def
      first_selectedIndices last_selectedIndices)

theorem toggleSelection_boundary_rule_witness:
  "toggleSelection [example_item 1 1, example_item 1 2, example_item 1 3, example_item 1 4]
     [(1, Finite 2), (1, Finite 3)] (example_item 1 4) 3
     = [(1, Finite 2), (1, Finite 3), (1, Finite 4)] \<and>
   toggleSelection [example_item 1 1, example_item 1 2, example_item 1 3, example_item 1 4]
     [(1, Finite 2)] (example_item 1 4) 3 = [(1, Finite 2)] \<and>
   toggleSelection [example_item 1 1, example_item 1 2, example_item 1 3, example_item 1 4]
     [(1, Finite 2), (1, Finite 3), (1, Finite 1), (1, Finite 4)] (example_item 1 3) 2
     = [(1, Finite 2), (1, Finite 3), (1, Finite 1), (1, Finite 4)] \<and>
   toggleSelection [example_item 1 1, example_item 1 2, example_item 1 3, example_item 1 4]
     [(1, Finite 2), (1, Finite 3), (1, Finite 1), (1, Finite 4)] (example_item 1 4) 3
     = [(1, Finite 2), (1, Finite 3), (1, Finite 1)] \<and>
   toggleSelection [example_item 1 1, example_item 1 2, example_item 1 3, example_item 1 4]
     [] (example_item 1 2) 1 = [(1, Finite 2)]"
  using
    toggleSelection_boundary_rule [where msg = "example_item 1 4" and index = 3
      and sel = "[(1, Finite 2), (1, Finite 3)]"
      and msgs = "[example_item 1 1, example_item 1 2, example_item 1 3, example_item 1 4]"]
    toggleSelection_boundary_rule [where msg = "example_item 1 4" and index = 3
      and sel = "[(1, Finite 2)]"
      and msgs = "[example_item 1 1, example_item 1 2, example_item 1 3, example_item 1 4]"]
    toggleSelection_boundary_rule [where msg = "example_item 1 3" and index = 2
      and sel = "[(1, Finite 2), (1, Finite 3), (1, Finite 1), (1, Finite 4)]"
      and msgs = "[example_item 1 1, example_item 1 2, example_item 1 3, example_item 1 4]"]
    toggleSelection_boundary_rule [where msg = "example_item 1 4" and index = 3
      and sel = "[(1, Finite 2), (1, Finite 3), (1, Finite 1), (1, Finite 4)]"
      and msgs = "[example_item 1 1, example_item 1 2, example_item 1 3, example_item 1 4]"]
    toggleSelection_boundary_rule [where msg = "example_item 1 2" and index = 1
      and sel = "[]"
      and msgs = "[example_item 1 1, example_item 1 2, example_item 1 3, example_item 1 4]"]
  by (simp add: set_selectedIndices [symmetric] selectedIndices_def example_item_def)

text \<open>
  Claim C5, as amended. Whatever messages arrive, a store of at most 200 items stays at
  most 200 items long, and the selection set is not changed by any of them. When the
  store holds 200 items and a well-formed subtitle message arrives, the oldest item is
  dropped and the new one is appended; the selection set stays as it was, so the uid of
  the dropped item, when it was selected, is still in it.
\<close>

theorem store_capacity_and_selection:
  "length (messages st) \<le> 200 \<Longrightarrow>
   length (messages (run st (inbound ins))) \<le> 200 \<and>
   selectedMessages (run st (inbound ins)) = selectedMessages st \<and>
   (length (messages st) = 200 \<and> map_of kvs ''type'' = Some (JStr ''subtitle'') \<and>
    parseSubtitleMessage (map_of kvs) port = Some m \<longrightarrow>
      messages (onMessage st (JObj kvs) port) = tl (messages st) @ [next_obj st] \<and>
      objs (onMessage st (JObj kvs) port) (next_obj st) = m \<and>
      selectedMessages (onMessage st (JObj kvs) port) = selectedMessages st \<and>
      (set_has (selectedMessages st) (uid (objs st (hd (messages st)))) \<longrightarrow>
       set_has (selectedMessages (onMessage st (JObj kvs) port))
         (uid (objs st (hd (messages st))))))"
proof -
  assume le: "length (messages st) \<le> 200"
  from run_inbound_cap [OF le, of ins] onMessage_evicts_oldest [of st kvs port m]
  show ?thesis
    by (simp add: onMessage_selection)
qed

theorem store_capacity_and_selection_witness:
  "length (messages full_store) \<le> 200 \<and>
   length (messages (run full_store (inbound [(subtitle_json 200, 61777)]))) \<le> 200 \<and>
   selectedMessages (run full_store (inbound [(subtitle_json 200, 61777)])) = [(61777, Finite 0)] \<and>
   messages (onMessage full_store (subtitle_json 200) 61777) = [1..<200] @ [200] \<and>
   objs (onMessage full_store (subtitle_json 200) 61777) 200 = example_item 61777 200 \<and>
   set_has (selectedMessages full_store) (uid (objs full_store (hd (messages full_store)))) \<and>
   set_has (selectedMessages (onMessage full_store (subtitle_json 200) 61777)) (61777, Finite 0)"
proof -
  have le: "length (messages full_store) \<le> 200"
    by (simp add: full_store_def)
  have f: "messages full_store = [0..<200]" "next_obj full_store = 200"
    "selectedMessages full_store = [(61777, Finite 0)]"
    by (simp_all add: full_store_def)
  have "hd (messages full_store) = 0"
    by (simp add: f(1) hd_upt del: upt_Suc)
  moreover have "uid (objs full_store 0) = (61777, Finite 0)"
    by (simp add: full_store_def example_item_def)
  ultimately have u: "uid (objs full_store (hd (messages full_store))) = (61777, Finite 0)"
    by simp
  have h:
    "set_has (selectedMessages full_store) (uid (objs full_store (hd (messages full_store))))"
    by (simp add: u f(3) set_has_def)
  from store_capacity_and_selection [OF le, of "[(subtitle_json 200, 61777)]"
      "[(''type'', JStr ''subtitle''), (''id'', JNum (Finite 200)),
       (''subtitle'', JStr ''line''), (''time_pos'', JNum (Finite 200)),
       (''sub_start'', JNum (Finite 200)), (''sub_end'', JNum (Finite (200 + 1)))]"
      61777 "example_item 61777 200"]
    parse_subtitle_json_200 h
  have "messages (onMessage full_store (subtitle_json 200) 61777) = [1..<200] @ [200]"
    "objs (onMessage full_store (subtitle_json 200) 61777) 200 = example_item 61777 200"
    "length (messages (run full_store (inbound [(subtitle_json 200, 61777)]))) \<le> 200"
    "selectedMessages (run full_store (inbound [(subtitle_json 200, 61777)]))
       = [(61777, Finite 0)]"
    "set_has (selectedMessages (onMessage full_store (subtitle_json 200) 61777))
       (uid (objs full_store (hd (messages full_store))))"
    by (simp_all add: f(1,2,3) u subtitle_json_def tl_upt del: upt_Suc)
  with le h show ?thesis
    by (simp add: u)
qed

text \<open>
  The full store with its first item selected, and one more line arriving: the store
  still holds 200 items, the selection set still holds the uid of the dropped item, and
  no stored item carries it.
\<close>

theorem selection_dangling_after_eviction:
  "length (messages full_store) = 200 \<and>
   getSelectedMessages (store_items full_store) (selectedMessages full_store) \<noteq> [] \<and>
   length (messages (onMessage full_store (subtitle_json 200) 61777)) = 200 \<and>
   selectedMessages (onMessage full_store (subtitle_json 200) 61777) = [(61777, Finite 0)] \<and>
   getSelectedMessages (store_items (onMessage full_store (subtitle_json 200) 61777))
     (selectedMessages (onMessage full_store (subtitle_json 200) 61777)) = []"
proof -
  have s: "selectedMessages (onMessage full_store (subtitle_json 200) 61777) = [(61777, Finite 0)]"
    by (simp add: onMessage_selection full_store_def)
  have a: "getSelectedMessages (store_items full_store) (selectedMessages full_store) \<noteq> []"
    by (simp add: getSelectedMessages_def store_items_def full_store_def set_has_def
        example_item_def filter_empty_conv del: upt_Suc)
  have b: "getSelectedMessages (store_items (onMessage full_store (subtitle_json 200) 61777))
     (selectedMessages (onMessage full_store (subtitle_json 200) 61777)) = []"
    unfolding s
    by (simp add: getSelectedMessages_def store_items_def full_store_after_201st set_has_def
        example_item_def filter_empty_conv del: upt_Suc)
  show ?thesis
    using a b s full_store_after_201st(1) by (simp add: full_store_def)
qed

lemma two_in_list: "a \<in> set xs \<Longrightarrow> b \<in> set xs \<Longrightarrow> a \<noteq> b \<Longrightarrow> 2 \<le> length xs"
proof (cases xs)
  case Nil
  assume "a \<in> set xs" with Nil show ?thesis by simp
next
  case (Cons x ys)
  assume "a \<in> set xs" "b \<in> set xs" "a \<noteq> b"
  with Cons have "ys \<noteq> []" by auto
  with Cons show ?thesis by (cases ys) simp_all
qed

lemma mixed_not_all_same:
  "mixed_ports ms \<Longrightarrow> \<not> list_all (\<lambda>msg. sourcePort msg = p) ms"
  unfolding mixed_ports_def list_all_iff by metis

lemma mixed_length:
  "mixed_ports ms \<Longrightarrow> 2 \<le> length ms"
  unfolding mixed_ports_def using two_in_list by fastforce

lemma mixed_selection_size:
  assumes "mixed_ports (getSelectedMessages msgs sel)"
    and "\<forall>m \<in> set msgs. uid m = (sourcePort m, msg_id m)"
  shows "2 \<le> length sel"
proof -
  from assms(1) obtain a b where ab: "a \<in> set (getSelectedMessages msgs sel)"
    "b \<in> set (getSelectedMessages msgs sel)" "sourcePort a \<noteq> sourcePort b"
    by (auto simp: mixed_ports_def)
  then have "uid a \<in> set sel" "uid b \<in> set sel" "a \<in> set msgs" "b \<in> set msgs"
    by (auto simp: getSelectedMessages_def set_has_def)
  moreover with assms(2) ab(3) have "uid a \<noteq> uid b" by auto
  ultimately show ?thesis using two_in_list by fastforce
qed

lemma getSelectionRange_Some:
  "getSelectedMessages msgs sel \<noteq> [] \<Longrightarrow> \<exists>f l. getSelectionRange msgs sel = Some (f, l)"
proof -
  assume ne: "getSelectedMessages msgs sel \<noteq> []"
  let ?s = "sort_key (\<lambda>a. findIndex (\<lambda>m. uid m = uid a) msgs) (getSelectedMessages msgs sel)"
  have "?s \<noteq> []" using ne by (metis length_sort length_0_conv)
  then obtain x xs where "?s = x # xs" by (cases ?s) auto
  then show ?thesis using ne
    by (simp add: getSelectionRange_def Let_def at_first_def at_last_def)
qed

text \<open>
  Claim C7. When the selected items of the store do not all come from the same port
  (and every stored item carries the uid of its port and identifier), playing the
  range shows the error about mixed connections and asks for nothing; the export never
  asks for the audio of the range, and when it reaches its audio part (the note service
  is configured and has a fresh target note, an audio field is set) it ends with that
  error after its only call, the one that fetched the note.
\<close>

theorem mixed_ports_rejected:
  assumes "mixed_ports (getSelectedMessages msgs sel)"
    and "\<forall>m \<in> set msgs. uid m = (sourcePort m, msg_id m)"
  shows "requestSelectionAudioRange msgs sel awaited = [ToastError MixedConnections] \<and>
         (\<forall>f l k. CallRequestAudioRange f l k \<notin> set (sendSelectionToAnki msgs sel env)) \<and>
         (ankiConfigured env \<and> audioField env \<noteq> [] \<and> getLastNote env = Inr (Some noteId) \<and>
          \<not> ((case maxCardAgeMinutes env of None \<Rightarrow> 5 | Some n \<Rightarrow> n) > 0 \<and>
             date_now env - noteId > (case maxCardAgeMinutes env of None \<Rightarrow> 5 | Some n \<Rightarrow> n) * 60000)
          \<longrightarrow> sendSelectionToAnki msgs sel env = [CallGetLastNote, ToastError MixedConnections])"
proof -
  let ?S = "getSelectedMessages msgs sel"
  have len: "2 \<le> length ?S" using assms(1) by (rule mixed_length)
  then have ne: "?S \<noteq> []" by auto
  from getSelectionRange_Some [OF ne] obtain f l where r: "getSelectionRange msgs sel = Some (f, l)"
    by blast
  have sz: "2 \<le> length sel" using assms by (rule mixed_selection_size)
  have nall: "\<not> list_all (\<lambda>msg. sourcePort msg = sourcePort f) ?S"
    using assms(1) by (rule mixed_not_all_same)
  have a: "requestSelectionAudioRange msgs sel awaited = [ToastError MixedConnections]"
    using r sz nall by (simp add: requestSelectionAudioRange_def selectionRange_def Let_def)
  have ea: "audioField env \<noteq> [] \<Longrightarrow> export_audio env ?S f l = ([], Inl MixedConnections)"
    using len nall by (simp add: export_audio_def)
  have ea0: "audioField env = [] \<Longrightarrow> export_audio env ?S f l = ([], Inr False)"
    by (simp add: export_audio_def)
  obtain ic ir where ei: "export_image env ?S f l = (ic, ir)"
    by (cases "export_image env ?S f l")
  have ic: "\<forall>x y z. CallRequestAudioRange x y z \<notin> set ic"
    using ei by (auto simp: export_image_def Let_def split: if_splits option.splits)
  have b: "\<forall>f' l' k. CallRequestAudioRange f' l' k \<notin> set (sendSelectionToAnki msgs sel env)"
  proof (cases "audioField env = []")
    case True
    show ?thesis
      using r ea0 [OF True] ei ic
      by (auto simp: sendSelectionToAnki_def Let_def split: sum.splits option.splits if_splits)
  next
    case False
    show ?thesis
      using r ea [OF False]
      by (auto simp: sendSelectionToAnki_def Let_def split: sum.splits option.splits if_splits)
  qed
  have c: "ankiConfigured env \<and> audioField env \<noteq> [] \<and> getLastNote env = Inr (Some noteId) \<and>
          \<not> ((case maxCardAgeMinutes env of None \<Rightarrow> 5 | Some n \<Rightarrow> n) > 0 \<and>
             date_now env - noteId > (case maxCardAgeMinutes env of None \<Rightarrow> 5 | Some n \<Rightarrow> n) * 60000)
          \<longrightarrow> sendSelectionToAnki msgs sel env = [CallGetLastNote, ToastError MixedConnections]"
    using r ea ne
    by (auto simp: sendSelectionToAnki_def Let_def)
  from a b c show ?thesis by blast
qed


theorem mixed_ports_rejected_witness:
  "requestSelectionAudioRange [example_item 1 1, example_item 2 2]
     [(1, Finite 1), (2, Finite 2)] None = [ToastError MixedConnections] \<and>
   sendSelectionToAnki [example_item 1 1, example_item 2 2]
     [(1, Finite 1), (2, Finite 2)] example_env = [CallGetLastNote, ToastError MixedConnections]"
proof -
  have m: "mixed_ports (getSelectedMessages [example_item 1 1, example_item 2 2]
             [(1, Finite 1), (2, Finite 2)])"
    unfolding mixed_ports_def
    by (rule bexI [where x = "example_item 1 1"], rule bexI [where x = "example_item 2 2"])
      (simp_all add: getSelectedMessages_def set_has_def example_item_def)
  have w: "\<forall>m \<in> set [example_item 1 1, example_item 2 2]. uid m = (sourcePort m, msg_id m)"
    by (simp add: example_item_def)
  from mixed_ports_rejected [OF m w, of None example_env 1000]
  show ?thesis
    by (simp add: example_env_def)
qed

lemma asNumber_finite: "asNumber v = Some n \<Longrightarrow> isFinite n"
  by (cases v rule: asNumber.cases) (auto split: if_splits)

lemma parse_time_pos_finite:
  "parseSubtitleMessage d port = Some m \<Longrightarrow> isFinite (time_pos m)"
proof -
  assume p: "parseSubtitleMessage d port = Some m"
  then obtain a where a: "asNumber (d ''sub_start'') = Some a"
    by (auto simp: parseSubtitleMessage_def Let_def split: if_splits)
  show ?thesis
  proof (cases "asNumber (d ''time_pos'')")
    case None
    with p a have "time_pos m = a"
      by (auto simp: parseSubtitleMessage_def Let_def split: if_splits)
    with asNumber_finite [OF a] show ?thesis by simp
  next
    case (Some t)
    with p have "time_pos m = t"
      by (auto simp: parseSubtitleMessage_def Let_def split: if_splits)
    with asNumber_finite [OF Some] show ?thesis by simp
  qed
qed

lemma in_tl: "a \<in> set (tl xs) \<Longrightarrow> a \<in> set xs"
  by (cases xs) auto

lemma onMessage_keeps_time_pos_finite:
  assumes inv: "\<forall>a \<in> set (messages st). isFinite (time_pos (objs st a))"
  shows "\<forall>a \<in> set (messages (onMessage st data port)).
           isFinite (time_pos (objs (onMessage st data port) a))"
proof (cases "isJsonObject data")
  case None
  with inv show ?thesis by (simp add: onMessage_def)
next
  case (Some kvs)
  note obj = Some
  show ?thesis
  proof (cases "map_of kvs ''type''")
    case None
    with obj inv show ?thesis by (simp add: onMessage_def)
  next
    case (Some j)
    note ty = Some
    show ?thesis
    proof (cases "\<exists>type. j = JStr type")
      case False
      then have "onMessage st data port = st"
        using obj ty by (cases j) (simp_all add: onMessage_def)
      with inv show ?thesis by simp
    next
      case True
      then obtain type where j: "j = JStr type" by blast
      consider (sub) "type = ''subtitle''"
        | (media) "type \<noteq> ''subtitle''" "type = ''thumbnail'' \<or> type = ''audio''"
        | (range) "type \<noteq> ''subtitle''" "\<not> (type = ''thumbnail'' \<or> type = ''audio'')"
            "type = ''audio_range''"
        | (other) "type \<noteq> ''subtitle''" "\<not> (type = ''thumbnail'' \<or> type = ''audio'')"
            "type \<noteq> ''audio_range''"
        by blast
      then show ?thesis
      proof cases
        case sub
        show ?thesis
        proof (cases "parseSubtitleMessage (map_of kvs) port")
          case None
          then have "onMessage st data port = st"
            using obj ty j sub by (simp add: onMessage_def)
          with inv show ?thesis by simp
        next
          case (Some m)
          have fin: "isFinite (time_pos m)" using Some by (rule parse_time_pos_finite)
          have ms: "set (messages (onMessage st data port))
                      \<subseteq> insert (next_obj st) (set (messages st))"
            using obj ty j sub Some in_tl [of _ "messages st @ [next_obj st]"]
            by (auto simp: onMessage_def Let_def)
          have ob: "objs (onMessage st data port) = (objs st)(next_obj st := m)"
            using obj ty j sub Some by (simp add: onMessage_def Let_def)
          show ?thesis
            using ms inv fin by (auto simp: ob)
        qed
      next
        case media
        show ?thesis
        proof (cases "parseMediaMessage (map_of kvs)")
          case None
          then have "onMessage st data port = st"
            using obj ty j media
            by (simp add: onMessage_def del: parseMediaMessage.simps)
          with inv show ?thesis by simp
        next
          case (Some r)
          obtain mid mdata where r: "r = (mid, mdata)" by (cases r)
          have ms: "messages (onMessage st data port) = messages st"
            using obj ty j media Some r
            by (simp add: onMessage_def Let_def split: option.split
                del: parseMediaMessage.simps)
          have ob: "\<And>a. time_pos (objs (onMessage st data port) a) = time_pos (objs st a)"
            using obj ty j media Some r
            by (simp add: onMessage_def Let_def split: option.split
                del: parseMediaMessage.simps)
          show ?thesis using inv by (simp add: ms ob)
        qed
      next
        case range
        have ms: "messages (onMessage st data port) = messages st"
          using obj ty j range
          by (simp add: onMessage_def Let_def split: option.split prod.split
              del: parseAudioRangeMessage.simps)
        have ob: "objs (onMessage st data port) = objs st"
          using obj ty j range
          by (simp add: onMessage_def Let_def split: option.split prod.split
              del: parseAudioRangeMessage.simps)
        show ?thesis using inv by (simp add: ms ob)
      next
        case other
        then have "onMessage st data port = st"
          using obj ty j by (simp add: onMessage_def)
        with inv show ?thesis by simp
      qed
    qed
  qed
qed

lemma onMessage_subtitle_stores_parsed:
  assumes "map_of kvs ''type'' = Some (JStr ''subtitle'')"
    and "parseSubtitleMessage (map_of kvs) port = Some m"
  shows "messages (onMessage st (JObj kvs) port) \<noteq> [] \<and>
         last (messages (onMessage st (JObj kvs) port)) = next_obj st \<and>
         objs (onMessage st (JObj kvs) port) (next_obj st) = m"
proof -
  have l: "last (tl (messages st @ [next_obj st])) = next_obj st"
    if "200 < length (messages st @ [next_obj st])"
    using that by (cases "messages st") simp_all
  have n: "tl (messages st @ [next_obj st]) \<noteq> []"
    if "200 < length (messages st @ [next_obj st])"
    using that by (cases "messages st") simp_all
  show ?thesis
    using assms l n by (simp add: onMessage_def Let_def)
qed

lemma onMessage_subtitle_rejected:
  assumes "map_of kvs ''type'' = Some (JStr ''subtitle'')"
    and "parseSubtitleMessage (map_of kvs) port = None"
  shows "onMessage st (JObj kvs) port = st"
  using assms by (simp add: onMessage_def)

lemma parse_default:
  assumes "asNumber (d ''id'') = Some i" "asString (d ''subtitle'') = Some s"
    "asNumber (d ''sub_start'') = Some a" "asNumber (d ''sub_end'') = Some e"
    "asNumber (d ''time_pos'') = None"
  shows "parseSubtitleMessage d port =
     Some \<lparr> msg_id = i, subtitle = s, time_pos = a, sub_start = a, sub_end = e,
            thumbnail = None, audio = None, sourcePort = port, uid = (port, i) \<rparr>"
  using assms by (simp add: parseSubtitleMessage_def)


lemma onMessage_time_pos_kept:
  assumes r: "r \<noteq> next_obj st"
  shows "time_pos (objs (onMessage st data port) r) = time_pos (objs st r)"
proof (cases "isJsonObject data")
  case None
  then show ?thesis by (simp add: onMessage_def)
next
  case (Some kvs)
  note obj = Some
  show ?thesis
  proof (cases "map_of kvs ''type''")
    case None
    with obj show ?thesis by (simp add: onMessage_def)
  next
    case (Some j)
    note ty = Some
    show ?thesis
    proof (cases "\<exists>type. j = JStr type")
      case False
      then have "onMessage st data port = st"
        using obj ty by (cases j) (simp_all add: onMessage_def)
      then show ?thesis by simp
    next
      case True
      then obtain type where j: "j = JStr type" by blast
      consider (sub) "type = ''subtitle''"
        | (media) "type \<noteq> ''subtitle''" "type = ''thumbnail'' \<or> type = ''audio''"
        | (range) "type \<noteq> ''subtitle''" "\<not> (type = ''thumbnail'' \<or> type = ''audio'')"
            "type = ''audio_range''"
        | (other) "type \<noteq> ''subtitle''" "\<not> (type = ''thumbnail'' \<or> type = ''audio'')"
            "type \<noteq> ''audio_range''"
        by blast
      then show ?thesis
      proof cases
        case sub
        show ?thesis
        proof (cases "parseSubtitleMessage (map_of kvs) port")
          case None
          then have "onMessage st data port = st"
            using obj ty j sub by (simp add: onMessage_def)
          then show ?thesis by simp
        next
          case (Some m)
          have "objs (onMessage st data port) = (objs st)(next_obj st := m)"
            using obj ty j sub Some by (simp add: onMessage_def Let_def)
          with r show ?thesis by simp
        qed
      next
        case media
        show ?thesis
        proof (cases "parseMediaMessage (map_of kvs)")
          case None
          then have "onMessage st data port = st"
            using obj ty j media
            by (simp add: onMessage_def del: parseMediaMessage.simps)
          then show ?thesis by simp
        next
          case (Some q)
          obtain mid mdata where q: "q = (mid, mdata)" by (cases q)
          show ?thesis
            using obj ty j media Some q
            by (simp add: onMessage_def Let_def split: option.split
                del: parseMediaMessage.simps)
        qed
      next
        case range
        have "objs (onMessage st data port) = objs st"
          using obj ty j range
          by (simp add: onMessage_def Let_def split: option.split prod.split
              del: parseAudioRangeMessage.simps)
        then show ?thesis by simp
      next
        case other
        then have "onMessage st data port = st"
          using obj ty j by (simp add: onMessage_def)
        then show ?thesis by simp
      qed
    qed
  qed
qed

text \<open>
  Claim C10. When a subtitle message arrives whose \<open>id\<close>, \<open>subtitle\<close>, \<open>sub_start\<close>
  and \<open>sub_end\<close> decode and whose \<open>time_pos\<close> is missing or is not a finite number,
  the item put at the end of the store has its \<open>time_pos\<close> equal to its \<open>sub_start\<close>,
  the value of the message. What a subtitle message puts into the store is exactly the
  item the parser returns, and nothing is stored when the parser rejects the message.
  The parser gives such a message the \<open>time_pos\<close> of its \<open>sub_start\<close>, and every item
  it returns carries a finite \<open>time_pos\<close>. No message changes the \<open>time_pos\<close> of an
  item other than the one it adds, and a store whose items all carry a finite
  \<open>time_pos\<close> is still such a store after any inbound message.
\<close>

theorem parseSubtitleMessage_time_pos_default:
  "(map_of kvs ''type'' = Some (JStr ''subtitle'') \<and>
    asNumber (map_of kvs ''id'') = Some i \<and> asString (map_of kvs ''subtitle'') = Some s \<and>
    asNumber (map_of kvs ''sub_start'') = Some a \<and> asNumber (map_of kvs ''sub_end'') = Some e \<and>
    asNumber (map_of kvs ''time_pos'') = None
    \<longrightarrow> messages (onMessage st (JObj kvs) port) \<noteq> [] \<and>
        last (messages (onMessage st (JObj kvs) port)) = next_obj st \<and>
        objs (onMessage st (JObj kvs) port) (next_obj st) =
          \<lparr> msg_id = i, subtitle = s, time_pos = a, sub_start = a, sub_end = e,
            thumbnail = None, audio = None, sourcePort = port, uid = (port, i) \<rparr>) \<and>
   (map_of kvs ''type'' = Some (JStr ''subtitle'') \<and>
    parseSubtitleMessage (map_of kvs) port = Some m
    \<longrightarrow> messages (onMessage st (JObj kvs) port) \<noteq> [] \<and>
        last (messages (onMessage st (JObj kvs) port)) = next_obj st \<and>
        objs (onMessage st (JObj kvs) port) (next_obj st) = m) \<and>
   (map_of kvs ''type'' = Some (JStr ''subtitle'') \<and>
    parseSubtitleMessage (map_of kvs) port = None
    \<longrightarrow> onMessage st (JObj kvs) port = st) \<and>
   (asNumber (d ''id'') = Some i \<and> asString (d ''subtitle'') = Some s \<and>
    asNumber (d ''sub_start'') = Some a \<and> asNumber (d ''sub_end'') = Some e \<and>
    asNumber (d ''time_pos'') = None
    \<longrightarrow> (\<exists>m. parseSubtitleMessage d port = Some m \<and> time_pos m = a \<and>
              time_pos m = sub_start m \<and> msg_id m = i \<and> subtitle m = s \<and> sub_end m = e)) \<and>
   (\<forall>m. parseSubtitleMessage d port = Some m \<longrightarrow> isFinite (time_pos m)) \<and>
   (\<forall>r. r \<noteq> next_obj st \<longrightarrow>
        time_pos (objs (onMessage st data p) r) = time_pos (objs st r)) \<and>
   ((\<forall>r \<in> set (messages st). isFinite (time_pos (objs st r))) \<longrightarrow>
    (\<forall>r \<in> set (messages (onMessage st data p)).
        isFinite (time_pos (objs (onMessage st data p) r))))"
proof (intro conjI impI allI)
  assume h: "map_of kvs ''type'' = Some (JStr ''subtitle'') \<and>
    asNumber (map_of kvs ''id'') = Some i \<and> asString (map_of kvs ''subtitle'') = Some s \<and>
    asNumber (map_of kvs ''sub_start'') = Some a \<and> asNumber (map_of kvs ''sub_end'') = Some e \<and>
    asNumber (map_of kvs ''time_pos'') = None"
  then have p: "parseSubtitleMessage (map_of kvs) port =
     Some \<lparr> msg_id = i, subtitle = s, time_pos = a, sub_start = a, sub_end = e,
            thumbnail = None, audio = None, sourcePort = port, uid = (port, i) \<rparr>"
    by (intro parse_default) simp_all
  from h have t: "map_of kvs ''type'' = Some (JStr ''subtitle'')" by simp
  from onMessage_subtitle_stores_parsed [OF t p, of st]
  show "messages (onMessage st (JObj kvs) port) \<noteq> []"
    "last (messages (onMessage st (JObj kvs) port)) = next_obj st"
    "objs (onMessage st (JObj kvs) port) (next_obj st) =
          \<lparr> msg_id = i, subtitle = s, time_pos = a, sub_start = a, sub_end = e,
            thumbnail = None, audio = None, sourcePort = port, uid = (port, i) \<rparr>"
    by simp_all
next
  assume h: "map_of kvs ''type'' = Some (JStr ''subtitle'') \<and>
    parseSubtitleMessage (map_of kvs) port = Some m"
  then have t: "map_of kvs ''type'' = Some (JStr ''subtitle'')"
    and p: "parseSubtitleMessage (map_of kvs) port = Some m" by simp_all
  from onMessage_subtitle_stores_parsed [OF t p, of st]
  show "messages (onMessage st (JObj kvs) port) \<noteq> []"
    "last (messages (onMessage st (JObj kvs) port)) = next_obj st"
    "objs (onMessage st (JObj kvs) port) (next_obj st) = m"
    by simp_all
next
  assume "map_of kvs ''type'' = Some (JStr ''subtitle'') \<and>
    parseSubtitleMessage (map_of kvs) port = None"
  then show "onMessage st (JObj kvs) port = st"
    using onMessage_subtitle_rejected [of kvs port st] by simp
next
  assume "asNumber (d ''id'') = Some i \<and> asString (d ''subtitle'') = Some s \<and>
    asNumber (d ''sub_start'') = Some a \<and> asNumber (d ''sub_end'') = Some e \<and>
    asNumber (d ''time_pos'') = None"
  then show "\<exists>m. parseSubtitleMessage d port = Some m \<and> time_pos m = a \<and>
              time_pos m = sub_start m \<and> msg_id m = i \<and> subtitle m = s \<and> sub_end m = e"
    by (simp add: parseSubtitleMessage_def)
next
  fix m
  assume "parseSubtitleMessage d port = Some m"
  then show "isFinite (time_pos m)" by (rule parse_time_pos_finite)
next
  fix r
  assume "r \<noteq> next_obj st"
  then show "time_pos (objs (onMessage st data p) r) = time_pos (objs st r)"
    by (rule onMessage_time_pos_kept)
next
  assume "\<forall>r \<in> set (messages st). isFinite (time_pos (objs st r))"
  then show "\<forall>r \<in> set (messages (onMessage st data p)).
        isFinite (time_pos (objs (onMessage st data p) r))"
    by (rule onMessage_keeps_time_pos_finite)
qed


lemma example_lines:
  "map_of line_without_time_pos ''type'' = Some (JStr ''subtitle'')"
  "asNumber (map_of line_without_time_pos ''id'') = Some (Finite 7)"
  "asString (map_of line_without_time_pos ''subtitle'') = Some ''hello''"
  "asNumber (map_of line_without_time_pos ''sub_start'') = Some (Finite 12)"
  "asNumber (map_of line_without_time_pos ''sub_end'') = Some (Finite 15)"
  "asNumber (map_of line_without_time_pos ''time_pos'') = None"
  "map_of line_with_nan_time_pos ''type'' = Some (JStr ''subtitle'')"
  "asNumber (map_of line_with_nan_time_pos ''id'') = Some (Finite 7)"
  "asString (map_of line_with_nan_time_pos ''subtitle'') = Some ''hello''"
  "asNumber (map_of line_with_nan_time_pos ''sub_start'') = Some (Finite 12)"
  "asNumber (map_of line_with_nan_time_pos ''sub_end'') = Some (Finite 15)"
  "asNumber (map_of line_with_nan_time_pos ''time_pos'') = None"
  by (simp_all add: line_without_time_pos_def line_with_nan_time_pos_def)

theorem parseSubtitleMessage_time_pos_default_witness:
  "last (messages (onMessage fresh_client (JObj line_without_time_pos) 61777)) = 0 \<and>
   time_pos (objs (onMessage fresh_client (JObj line_without_time_pos) 61777) 0) = Finite 12 \<and>
   sub_start (objs (onMessage fresh_client (JObj line_without_time_pos) 61777) 0) = Finite 12 \<and>
   last (messages (onMessage full_store (JObj line_with_nan_time_pos) 61777)) = 200 \<and>
   time_pos (objs (onMessage full_store (JObj line_with_nan_time_pos) 61777) 200) = Finite 12 \<and>
   sub_start (objs (onMessage full_store (JObj line_with_nan_time_pos) 61777) 200) = Finite 12 \<and>
   time_pos (objs (onMessage full_store (JObj line_with_nan_time_pos) 61777) 5) = Finite 5 \<and>
   isFinite (time_pos (objs (onMessage full_store (JObj line_with_nan_time_pos) 61777) 200))"
proof -
  note A = parseSubtitleMessage_time_pos_default
    [where kvs = line_without_time_pos and st = fresh_client and port = 61777
       and i = "Finite 7" and s = "''hello''" and a = "Finite 12" and e = "Finite 15",
     THEN conjunct1]
  note B = parseSubtitleMessage_time_pos_default
    [where kvs = line_with_nan_time_pos and st = full_store and port = 61777
       and i = "Finite 7" and s = "''hello''" and a = "Finite 12" and e = "Finite 15"
       and data = "JObj line_with_nan_time_pos" and p = 61777]
  have n: "next_obj fresh_client = 0" "next_obj full_store = 200"
    by (simp_all add: fresh_client_def full_store_def)
  from A have a: "last (messages (onMessage fresh_client (JObj line_without_time_pos) 61777)) = 0"
    "time_pos (objs (onMessage fresh_client (JObj line_without_time_pos) 61777) 0) = Finite 12"
    "sub_start (objs (onMessage fresh_client (JObj line_without_time_pos) 61777) 0) = Finite 12"
    by (simp_all add: example_lines n)
  from B [THEN conjunct1]
  have b: "last (messages (onMessage full_store (JObj line_with_nan_time_pos) 61777)) = 200"
    "messages (onMessage full_store (JObj line_with_nan_time_pos) 61777) \<noteq> []"
    "time_pos (objs (onMessage full_store (JObj line_with_nan_time_pos) 61777) 200) = Finite 12"
    "sub_start (objs (onMessage full_store (JObj line_with_nan_time_pos) 61777) 200) = Finite 12"
    by (simp_all add: example_lines n)
  have "(5::nat) \<noteq> next_obj full_store" by (simp add: n)
  with B [THEN conjunct2, THEN conjunct2, THEN conjunct2, THEN conjunct2, THEN conjunct2,
          THEN conjunct1]
  have "time_pos (objs (onMessage full_store (JObj line_with_nan_time_pos) 61777) 5)
      = time_pos (objs full_store 5)"
    by blast
  then have c: "time_pos (objs (onMessage full_store (JObj line_with_nan_time_pos) 61777) 5)
      = Finite 5"
    by (simp add: full_store_def example_item_def)
  have h: "\<forall>r \<in> set (messages full_store). isFinite (time_pos (objs full_store r))"
    by (simp add: full_store_def example_item_def)
  have mem: "200 \<in> set (messages (onMessage full_store (JObj line_with_nan_time_pos) 61777))"
    using b(1) b(2) last_in_set by metis
  from B [THEN conjunct2, THEN conjunct2, THEN conjunct2, THEN conjunct2, THEN conjunct2,
          THEN conjunct2] h mem
  have d: "isFinite (time_pos (objs (onMessage full_store (JObj line_with_nan_time_pos) 61777) 200))"
    by blast
  from a b c d show ?thesis by simp
qed

end
